theory Spec2Isabelle
  imports Complex_Main "HOL-Library.Log_Nat"
begin

section \<open>JavaScript values used by the handlers\<close>

subsection \<open>Numbers\<close>

text \<open>
  \<^verbatim>\<open>user.balance\<close> and \<^verbatim>\<open>numAmount\<close> are JavaScript Numbers: IEEE 754 binary64 values.
  A finite value is kept as the rational it denotes; the results of \<^verbatim>\<open>+\<close> and \<^verbatim>\<open>-\<close> are
  rounded to the nearest binary64 value, ties to even, and overflow to an infinity.
  The two zeros are one value here: the handlers only add, subtract and compare, a negative
  zero is rejected by \<^verbatim>\<open>numAmount <= 0\<close> like the positive one, and no sum or difference
  the handlers compute is a negative zero.
\<close>

datatype number = NaN | PInf | NInf | Fin rat

definition pow2 :: "int \<Rightarrow> rat" where
  "pow2 k = (if 0 \<le> k then 2 ^ nat k else 1 / 2 ^ nat (- k))"

text \<open>The greatest \<open>k\<close> with \<open>2 ^ k \<le> q\<close>, for a positive \<open>q\<close>.\<close>

definition floor_log2 :: "rat \<Rightarrow> int" where
  "floor_log2 q =
     (let k = bitlen (fst (quotient_of q)) - bitlen (snd (quotient_of q))
      in if pow2 k \<le> q then k else k - 1)"

definition round_half_even :: "rat \<Rightarrow> int" where
  "round_half_even x =
     (let f = \<lfloor>x\<rfloor>; d = x - of_int f
      in if d < 1 / 2 then f
         else if 1 / 2 < d then f + 1
         else if even f then f else f + 1)"

definition max_double :: rat where
  "max_double = (2 ^ 53 - 1) * 2 ^ 971"

definition round64 :: "rat \<Rightarrow> number" where
  "round64 q =
     (if q = 0 then Fin 0
      else
        let a = \<bar>q\<bar>;
            e = max (floor_log2 a - 52) (- 1074);
            r = of_int (round_half_even (a / pow2 e)) * pow2 e
        in if max_double < r then (if q < 0 then NInf else PInf)
           else Fin (if q < 0 then - r else r))"

fun js_neg :: "number \<Rightarrow> number" where
  "js_neg NaN = NaN"
| "js_neg PInf = NInf"
| "js_neg NInf = PInf"
| "js_neg (Fin x) = Fin (- x)"

fun js_add :: "number \<Rightarrow> number \<Rightarrow> number" where
  "js_add NaN _ = NaN"
| "js_add _ NaN = NaN"
| "js_add PInf NInf = NaN"
| "js_add NInf PInf = NaN"
| "js_add PInf _ = PInf"
| "js_add _ PInf = PInf"
| "js_add NInf _ = NInf"
| "js_add _ NInf = NInf"
| "js_add (Fin x) (Fin y) = round64 (x + y)"

definition js_sub :: "number \<Rightarrow> number \<Rightarrow> number" where
  "js_sub x y = js_add x (js_neg y)"

text \<open>\<^verbatim>\<open>x < y\<close> and \<^verbatim>\<open>x <= y\<close> on Numbers: false as soon as one side is NaN.\<close>

fun js_lt :: "number \<Rightarrow> number \<Rightarrow> bool" where
  "js_lt NaN _ = False"
| "js_lt _ NaN = False"
| "js_lt PInf _ = False"
| "js_lt _ NInf = False"
| "js_lt NInf _ = True"
| "js_lt _ PInf = True"
| "js_lt (Fin x) (Fin y) = (x < y)"

fun js_le :: "number \<Rightarrow> number \<Rightarrow> bool" where
  "js_le NaN _ = False"
| "js_le _ NaN = False"
| "js_le NInf _ = True"
| "js_le _ PInf = True"
| "js_le PInf _ = False"
| "js_le _ NInf = False"
| "js_le (Fin x) (Fin y) = (x \<le> y)"

definition isNaN :: "number \<Rightarrow> bool" where
  "isNaN n = (n = NaN)"

subsection \<open>Values of a parsed request body\<close>

text \<open>
  \<^verbatim>\<open>req.body\<close> is what \<^verbatim>\<open>bodyParser.json()\<close> built with \<^verbatim>\<open>JSON.parse\<close>; a field that is
  missing reads as \<^verbatim>\<open>undefined\<close>. A string is the list of its code units, for code units
  below 256.
\<close>

datatype jsval =
    Undefined
  | Null
  | JBool bool
  | JNum number
  | JStr string
  | JArr "jsval list"
  | JObj "(string \<times> jsval) list"

text \<open>\<^verbatim>\<open>!v\<close> is true on the falsy values.\<close>

fun falsy :: "jsval \<Rightarrow> bool" where
  "falsy Undefined = True"
| "falsy Null = True"
| "falsy (JBool b) = (\<not> b)"
| "falsy (JNum n) = (n = NaN \<or> n = Fin 0)"
| "falsy (JStr s) = (s = [])"
| "falsy (JArr _) = False"
| "falsy (JObj _) = False"

subsection \<open>\<^verbatim>\<open>parseFloat\<close>\<close>

definition is_digit :: "char \<Rightarrow> bool" where
  "is_digit c = (c \<in> set ''0123456789'')"

definition is_white_space :: "char \<Rightarrow> bool" where
  "is_white_space c = (of_char c \<in> {9, 10, 11, 12, 13, 32, 160 :: nat})"

definition digits_value :: "string \<Rightarrow> nat" where
  "digits_value ds = foldl (\<lambda>n c. 10 * n + (of_char c - 48)) 0 ds"

text \<open>The value of an \<^verbatim>\<open>ExponentPart\<close> at the head of the string, 0 when there is none.\<close>

definition exponent_part :: "string \<Rightarrow> int" where
  "exponent_part s =
     (case s of
        [] \<Rightarrow> 0
      | c # t \<Rightarrow>
          if c = CHR ''e'' \<or> c = CHR ''E'' then
            (let neg = (t \<noteq> [] \<and> hd t = CHR ''-'');
                 u = (if t \<noteq> [] \<and> (hd t = CHR ''+'' \<or> hd t = CHR ''-'') then tl t else t);
                 ds = takeWhile is_digit u
             in if ds = [] then 0
                else if neg then - int (digits_value ds) else int (digits_value ds))
          else 0)"

definition scale10 :: "nat \<Rightarrow> int \<Rightarrow> rat" where
  "scale10 m k = (if 0 \<le> k then of_nat m * 10 ^ nat k else of_nat m / 10 ^ nat (- k))"

text \<open>
  The longest prefix that is a \<^verbatim>\<open>StrUnsignedDecimalLiteral\<close>: \<^verbatim>\<open>Infinity\<close>, or digits with
  an optional fraction and an optional exponent; \<open>None\<close> when no prefix is one.
\<close>

definition unsigned_literal :: "string \<Rightarrow> number option" where
  "unsigned_literal s =
     (if take 8 s = ''Infinity'' then Some PInf
      else
        let ip = takeWhile is_digit s;
            r1 = dropWhile is_digit s;
            dot = (r1 \<noteq> [] \<and> hd r1 = CHR ''.'');
            fp = (if dot then takeWhile is_digit (tl r1) else []);
            r2 = (if dot then dropWhile is_digit (tl r1) else r1)
        in if ip = [] \<and> fp = [] then None
           else Some (round64 (scale10 (digits_value (ip @ fp))
                                 (exponent_part r2 - int (length fp)))))"

definition parse_float_string :: "string \<Rightarrow> number" where
  "parse_float_string s =
     (let t = dropWhile is_white_space s
      in case t of
           [] \<Rightarrow> NaN
         | c # u \<Rightarrow>
             if c = CHR ''-'' then (case unsigned_literal u of None \<Rightarrow> NaN | Some n \<Rightarrow> js_neg n)
             else if c = CHR ''+'' then (case unsigned_literal u of None \<Rightarrow> NaN | Some n \<Rightarrow> n)
             else (case unsigned_literal t of None \<Rightarrow> NaN | Some n \<Rightarrow> n))"

text \<open>
  \<^verbatim>\<open>parseFloat(v)\<close> first converts \<open>v\<close> to a string. For an object of the body that
  conversion throws a TypeError when the object has an own key \<^verbatim>\<open>toString\<close> (no value
  that JSON can carry is callable, and the inherited \<^verbatim>\<open>valueOf\<close> returns the object), and
  gives \<^verbatim>\<open>[object Object]\<close> otherwise; an array is joined with commas, which converts every
  element.
\<close>

fun to_string_throws :: "jsval \<Rightarrow> bool" where
  "to_string_throws (JObj kvs) = List.member (map fst kvs) ''toString''"
| "to_string_throws (JArr vs) = list_ex to_string_throws vs"
| "to_string_throws _ = False"

text \<open>
  The number read from the string of a value whose conversion does not throw. The string
  of a Number reads back as that Number; in a joined array the comma ends the literal, so
  the first element decides, and \<^verbatim>\<open>null\<close> and \<^verbatim>\<open>undefined\<close> elements are empty strings.
\<close>

fun parse_value :: "jsval \<Rightarrow> number" where
  "parse_value (JNum n) = n"
| "parse_value (JStr s) = parse_float_string s"
| "parse_value (JArr (v # vs)) = parse_value v"
| "parse_value _ = NaN"

text \<open>\<open>None\<close> is the TypeError.\<close>

definition parseFloat :: "jsval \<Rightarrow> number option" where
  "parseFloat v = (if to_string_throws v then None else Some (parse_value v))"

section \<open>Tokens\<close>

text \<open>
  The claims of a token. \<^verbatim>\<open>/login\<close> signs \<^verbatim>\<open>{ username }\<close> and the library adds
  \<^verbatim>\<open>iat\<close> and \<^verbatim>\<open>exp\<close>, in seconds; \<^verbatim>\<open>nbf\<close> is the other time claim that \<^verbatim>\<open>jwt.verify\<close>
  reads. The model covers claims objects whose \<^verbatim>\<open>username\<close> is a string or missing and
  whose time claims are natural numbers or missing.
\<close>

record claims =
  username :: "string option"
  iat :: "nat option"
  nbf :: "nat option"
  exp_claim :: "nat option"

record jwt =
  payload :: claims
  signature :: string

text \<open>
  What the \<^verbatim>\<open>jsonwebtoken\<close> package does below its two entry points is a parameter: the
  compact serialisation of a token and its inverse, and the keyed MAC of the claims
  (HMAC-SHA256).
\<close>

record jsonwebtoken =
  encode :: "jwt \<Rightarrow> string"
  decode :: "string \<Rightarrow> jwt option"
  hmac :: "string \<Rightarrow> claims \<Rightarrow> string"

text \<open>
  \<^verbatim>\<open>JWT_SECRET\<close> and \<^verbatim>\<open>JWT_EXPIRES_IN\<close> come from the environment, the latter as a number
  of seconds here (\<^verbatim>\<open>'24h'\<close> is 86400).
\<close>

record config =
  JWT_SECRET :: string
  JWT_EXPIRES_IN :: nat

definition default_config :: config where
  "default_config =
     \<lparr>JWT_SECRET = ''your-secret-key-change-this-in-production'', JWT_EXPIRES_IN = 86400\<rparr>"

datatype verify_error = TokenExpiredError nat | JsonWebTokenError | NotBeforeError

text \<open>
  \<^verbatim>\<open>jwt.sign({ username }, secret, { expiresIn })\<close> at the time \<open>now\<close>, in milliseconds as
  \<^verbatim>\<open>Date.now()\<close> gives it.
\<close>

definition issued_claims :: "nat \<Rightarrow> string \<Rightarrow> nat \<Rightarrow> claims" where
  "issued_claims now uname expiresIn =
     \<lparr>username = Some uname, iat = Some (now div 1000), nbf = None,
      exp_claim = Some (now div 1000 + expiresIn)\<rparr>"

definition sign_claims :: "jsonwebtoken \<Rightarrow> string \<Rightarrow> claims \<Rightarrow> jwt" where
  "sign_claims lib secret c = \<lparr>payload = c, signature = hmac lib secret c\<rparr>"

definition jwt_sign :: "jsonwebtoken \<Rightarrow> nat \<Rightarrow> string \<Rightarrow> string \<Rightarrow> nat \<Rightarrow> string" where
  "jwt_sign lib now uname secret expiresIn =
     encode lib (sign_claims lib secret (issued_claims now uname expiresIn))"

text \<open>
  \<^verbatim>\<open>jwt.verify(token, secret)\<close>: a token that does not decode or whose signature is not the
  MAC of its claims under \<open>secret\<close> is a \<^verbatim>\<open>JsonWebTokenError\<close>; then \<^verbatim>\<open>nbf\<close> is compared
  with the clock, then \<^verbatim>\<open>exp\<close>; the \<^verbatim>\<open>TokenExpiredError\<close> carries \<^verbatim>\<open>expiredAt\<close>, the
  date \<^verbatim>\<open>exp * 1000\<close>.
\<close>

definition not_active :: "claims \<Rightarrow> nat \<Rightarrow> bool" where
  "not_active c clockTimestamp = (case nbf c of None \<Rightarrow> False | Some n \<Rightarrow> clockTimestamp < n)"

definition expiry_date :: "claims \<Rightarrow> nat \<Rightarrow> nat option" where
  "expiry_date c clockTimestamp =
     (case exp_claim c of
        None \<Rightarrow> None
      | Some e \<Rightarrow> if e \<le> clockTimestamp then Some (e * 1000) else None)"

definition jwt_verify :: "jsonwebtoken \<Rightarrow> nat \<Rightarrow> string \<Rightarrow> string \<Rightarrow> verify_error + claims" where
  "jwt_verify lib now token secret =
     (case decode lib token of
        None \<Rightarrow> Inl JsonWebTokenError
      | Some t \<Rightarrow>
          if signature t \<noteq> hmac lib secret (payload t) then Inl JsonWebTokenError
          else if not_active (payload t) (now div 1000) then Inl NotBeforeError
          else (case expiry_date (payload t) (now div 1000) of
                  Some d \<Rightarrow> Inl (TokenExpiredError d)
                | None \<Rightarrow> Inr (payload t)))"

section \<open>Responses\<close>

text \<open>
  One constructor for each \<^verbatim>\<open>res.status(...).json(...)\<close> of the two files, named after its
  \<^verbatim>\<open>error\<close> or \<^verbatim>\<open>message\<close> string, with the other fields of the body as arguments.
  A \<^verbatim>\<open>balance\<close> that is \<^verbatim>\<open>undefined\<close> is \<open>None\<close>.
\<close>

datatype response =
    NoTokenProvided
  | InvalidTokenFormat
  | TokenExpired nat
  | InvalidToken
  | TokenVerificationFailed
  | CredentialsRequired
  | InvalidCredentials
  | LoginSuccessful string
  | UserNotFound
  | BalanceOf "string option" "number option"
  | AmountRequired
  | AmountNotNumber
  | AmountNotPositive
  | InsufficientBalance "number option"
  | Deposited "string option" "number option" number
  | Withdrew "string option" "number option" number
  | InternalServerError

fun status :: "response \<Rightarrow> nat" where
  "status NoTokenProvided = 401"
| "status InvalidTokenFormat = 401"
| "status (TokenExpired _) = 401"
| "status InvalidToken = 401"
| "status TokenVerificationFailed = 401"
| "status CredentialsRequired = 400"
| "status InvalidCredentials = 401"
| "status (LoginSuccessful _) = 200"
| "status UserNotFound = 404"
| "status (BalanceOf _ _) = 200"
| "status AmountRequired = 400"
| "status AmountNotNumber = 400"
| "status AmountNotPositive = 400"
| "status (InsufficientBalance _) = 400"
| "status (Deposited _ _ _) = 200"
| "status (Withdrew _ _ _) = 200"
| "status InternalServerError = 500"

section \<open>The authentication middleware\<close>

text \<open>\<^verbatim>\<open>s.split(sep)\<close> for a separator of one character.\<close>

fun split :: "char \<Rightarrow> string \<Rightarrow> string list" where
  "split sep [] = [[]]"
| "split sep (c # cs) =
     (if c = sep then [] # split sep cs
      else (case split sep cs of [] \<Rightarrow> [[c]] | p # ps \<Rightarrow> (c # p) # ps))"

text \<open>
  \<^verbatim>\<open>authMiddleware\<close>, with \<open>Inr\<close> for the call of \<^verbatim>\<open>next()\<close> with \<^verbatim>\<open>req.user\<close> set to the
  decoded claims. \<^verbatim>\<open>!authHeader\<close> holds for a missing header and for an empty one.
\<close>

definition authMiddleware ::
    "jsonwebtoken \<Rightarrow> config \<Rightarrow> nat \<Rightarrow> string option \<Rightarrow> response + claims" where
  "authMiddleware lib cfg now authHeader =
     (case authHeader of
        None \<Rightarrow> Inl NoTokenProvided
      | Some h \<Rightarrow>
          if h = [] then Inl NoTokenProvided
          else
            (case split (CHR '' '') h of
               [scheme, token] \<Rightarrow>
                 if scheme \<noteq> ''Bearer'' then Inl InvalidTokenFormat
                 else
                   (case jwt_verify lib now token (JWT_SECRET cfg) of
                      Inr decoded \<Rightarrow> Inr decoded
                    | Inl (TokenExpiredError expiredAt) \<Rightarrow> Inl (TokenExpired expiredAt)
                    | Inl JsonWebTokenError \<Rightarrow> Inl InvalidToken
                    | Inl NotBeforeError \<Rightarrow> Inl TokenVerificationFailed)
             | _ \<Rightarrow> Inl InvalidTokenFormat))"

section \<open>The routes\<close>

text \<open>
  \<^verbatim>\<open>userDatabase\<close> is an object literal, so \<^verbatim>\<open>userDatabase[username]\<close> finds the accounts,
  which are its own properties, and then what every object inherits from
  \<^verbatim>\<open>Object.prototype\<close>: its functions, and \<^verbatim>\<open>Object.prototype\<close> itself under
  \<^verbatim>\<open>__proto__\<close>. All of these are truthy.
\<close>

record account =
  password :: string
  balance :: number

definition object_prototype_keys :: "string list" where
  "object_prototype_keys =
     [''constructor'', ''__defineGetter__'', ''__defineSetter__'', ''hasOwnProperty'',
      ''__lookupGetter__'', ''__lookupSetter__'', ''isPrototypeOf'', ''propertyIsEnumerable'',
      ''toString'', ''valueOf'', ''__proto__'', ''toLocaleString'']"

text \<open>
  The state: the accounts, and the inherited objects on which a handler has created a
  \<^verbatim>\<open>balance\<close> property. The value of such a property is always NaN: it is first written as
  \<^verbatim>\<open>undefined + numAmount\<close> or \<^verbatim>\<open>undefined - numAmount\<close>, and NaN stays NaN. A function
  inherits the property from \<^verbatim>\<open>Object.prototype\<close> once it is there.
\<close>

record bank =
  accounts :: "string \<rightharpoonup> account"
  touched :: "string set"

definition userDatabase :: bank where
  "userDatabase =
     \<lparr>accounts = [''john_doe'' \<mapsto> \<lparr>password = ''password123'', balance = Fin 5000\<rparr>],
      touched = {}\<rparr>"

definition VALID_USERNAME :: string where
  "VALID_USERNAME = ''john_doe''"

definition VALID_PASSWORD :: string where
  "VALID_PASSWORD = ''password123''"

datatype user_ref = Account string | Inherited string

text \<open>A property key is a string: \<^verbatim>\<open>userDatabase[undefined]\<close> reads the key \<^verbatim>\<open>undefined\<close>.\<close>

definition property_key :: "string option \<Rightarrow> string" where
  "property_key k = (case k of None \<Rightarrow> ''undefined'' | Some s \<Rightarrow> s)"

text \<open>
  \<^verbatim>\<open>userDatabase[username]\<close>, with \<open>None\<close> for a falsy result: \<^verbatim>\<open>undefined\<close>, or the NaN
  that the key \<^verbatim>\<open>balance\<close> inherits once \<^verbatim>\<open>Object.prototype\<close> has that property.
\<close>

definition lookup_user :: "bank \<Rightarrow> string \<Rightarrow> user_ref option" where
  "lookup_user db k =
     (case accounts db k of
        Some a \<Rightarrow> Some (Account k)
      | None \<Rightarrow> if List.member object_prototype_keys k then Some (Inherited k) else None)"

text \<open>\<^verbatim>\<open>user.balance\<close>, \<open>None\<close> for \<^verbatim>\<open>undefined\<close>.\<close>

definition get_balance :: "bank \<Rightarrow> user_ref \<Rightarrow> number option" where
  "get_balance db u =
     (case u of
        Account k \<Rightarrow> map_option balance (accounts db k)
      | Inherited k \<Rightarrow> if k \<in> touched db \<or> ''__proto__'' \<in> touched db then Some NaN else None)"

definition to_number :: "number option \<Rightarrow> number" where
  "to_number v = (case v of None \<Rightarrow> NaN | Some n \<Rightarrow> n)"

text \<open>\<^verbatim>\<open>user.balance = v\<close>.\<close>

definition set_balance :: "bank \<Rightarrow> user_ref \<Rightarrow> number \<Rightarrow> bank" where
  "set_balance db u v =
     (case u of
        Account k \<Rightarrow>
          (case accounts db k of
             None \<Rightarrow> db
           | Some a \<Rightarrow> db\<lparr>accounts := (accounts db)(k \<mapsto> a\<lparr>balance := v\<rparr>)\<rparr>)
      | Inherited k \<Rightarrow> db\<lparr>touched := insert k (touched db)\<rparr>)"

text \<open>\<^verbatim>\<open>POST /login\<close>, on the two fields of the body.\<close>

definition login :: "jsonwebtoken \<Rightarrow> config \<Rightarrow> nat \<Rightarrow> jsval \<Rightarrow> jsval \<Rightarrow> response" where
  "login lib cfg now uname pw =
     (if falsy uname \<or> falsy pw then CredentialsRequired
      else if uname \<noteq> JStr VALID_USERNAME \<or> pw \<noteq> JStr VALID_PASSWORD then InvalidCredentials
      else LoginSuccessful
             (jwt_sign lib now VALID_USERNAME (JWT_SECRET cfg) (JWT_EXPIRES_IN cfg)))"

text \<open>The handlers behind the middleware, on \<^verbatim>\<open>req.user\<close> and \<^verbatim>\<open>req.body.amount\<close>.\<close>

definition balance_handler :: "bank \<Rightarrow> claims \<Rightarrow> response" where
  "balance_handler db user =
     (case lookup_user db (property_key (username user)) of
        None \<Rightarrow> UserNotFound
      | Some u \<Rightarrow> BalanceOf (username user) (get_balance db u))"

definition deposit_handler :: "bank \<Rightarrow> claims \<Rightarrow> jsval \<Rightarrow> response \<times> bank" where
  "deposit_handler db user amount =
     (case lookup_user db (property_key (username user)) of
        None \<Rightarrow> (UserNotFound, db)
      | Some u \<Rightarrow>
          if amount = Undefined \<or> amount = Null then (AmountRequired, db)
          else
            (case parseFloat amount of
               None \<Rightarrow> (InternalServerError, db)
             | Some numAmount \<Rightarrow>
                 if isNaN numAmount then (AmountNotNumber, db)
                 else if js_le numAmount (Fin 0) then (AmountNotPositive, db)
                 else
                   let db' = set_balance db u (js_add (to_number (get_balance db u)) numAmount)
                   in (Deposited (username user) (get_balance db' u) numAmount, db')))"

definition withdraw_handler :: "bank \<Rightarrow> claims \<Rightarrow> jsval \<Rightarrow> response \<times> bank" where
  "withdraw_handler db user amount =
     (case lookup_user db (property_key (username user)) of
        None \<Rightarrow> (UserNotFound, db)
      | Some u \<Rightarrow>
          if amount = Undefined \<or> amount = Null then (AmountRequired, db)
          else
            (case parseFloat amount of
               None \<Rightarrow> (InternalServerError, db)
             | Some numAmount \<Rightarrow>
                 if isNaN numAmount then (AmountNotNumber, db)
                 else if js_le numAmount (Fin 0) then (AmountNotPositive, db)
                 else if js_lt (to_number (get_balance db u)) numAmount
                 then (InsufficientBalance (get_balance db u), db)
                 else
                   let db' = set_balance db u (js_sub (to_number (get_balance db u)) numAmount)
                   in (Withdrew (username user) (get_balance db' u) numAmount, db')))"

text \<open>The protected routes: the middleware, then the handler.\<close>

definition get_balance_route ::
    "jsonwebtoken \<Rightarrow> config \<Rightarrow> nat \<Rightarrow> bank \<Rightarrow> string option \<Rightarrow> response \<times> bank" where
  "get_balance_route lib cfg now db authHeader =
     (case authMiddleware lib cfg now authHeader of
        Inl r \<Rightarrow> (r, db)
      | Inr user \<Rightarrow> (balance_handler db user, db))"

definition post_deposit_route ::
    "jsonwebtoken \<Rightarrow> config \<Rightarrow> nat \<Rightarrow> bank \<Rightarrow> string option \<Rightarrow> jsval \<Rightarrow> response \<times> bank" where
  "post_deposit_route lib cfg now db authHeader amount =
     (case authMiddleware lib cfg now authHeader of
        Inl r \<Rightarrow> (r, db)
      | Inr user \<Rightarrow> deposit_handler db user amount)"

definition post_withdraw_route ::
    "jsonwebtoken \<Rightarrow> config \<Rightarrow> nat \<Rightarrow> bank \<Rightarrow> string option \<Rightarrow> jsval \<Rightarrow> response \<times> bank" where
  "post_withdraw_route lib cfg now db authHeader amount =
     (case authMiddleware lib cfg now authHeader of
        Inl r \<Rightarrow> (r, db)
      | Inr user \<Rightarrow> withdraw_handler db user amount)"

section \<open>Notions used in the statements\<close>

text \<open>A rational that is a binary64 value: rounding leaves it as it is.\<close>

definition is_double :: "rat \<Rightarrow> bool" where
  "is_double q = (round64 q = Fin q)"

text \<open>A run of debits with the same \<^verbatim>\<open>req.user\<close>: each handler call starts from the state the
  last one left.\<close>

definition debits :: "bank \<Rightarrow> claims \<Rightarrow> jsval list \<Rightarrow> bank" where
  "debits db user amounts = fold (\<lambda>amount d. snd (withdraw_handler d user amount)) amounts db"

text \<open>The account of \<open>u\<close> exists and its balance is a finite number that is not negative.\<close>

definition solvent :: "bank \<Rightarrow> string \<Rightarrow> bool" where
  "solvent db u =
     (case accounts db u of
        Some a \<Rightarrow> (case balance a of Fin b \<Rightarrow> 0 \<le> b \<and> b \<le> max_double | _ \<Rightarrow> False)
      | None \<Rightarrow> False)"

text \<open>
  An instance of the library for the examples: it knows one token string, which decodes
  to \<open>t\<close>, and its MAC of any claims is the secret itself.
\<close>

definition single_token :: "string \<Rightarrow> jwt \<Rightarrow> jsonwebtoken" where
  "single_token s t =
     \<lparr>encode = (\<lambda>_. s), decode = (\<lambda>x. if x = s then Some t else None),
      hmac = (\<lambda>secret c. secret)\<rparr>"

text \<open>
  The key that HMAC works with: a key shorter than its block of 64 bytes is filled up with
  zero bytes. The second instance of the library has this prepared key as its MAC; what it
  shares with HMAC is that the MAC depends on the secret through the prepared key only.
\<close>

definition zero_padded :: "string \<Rightarrow> string" where
  "zero_padded key = key @ replicate (64 - length key) (CHR 0x00)"

definition padded_key_mac :: "string \<Rightarrow> jwt \<Rightarrow> jsonwebtoken" where
  "padded_key_mac s t =
     \<lparr>encode = (\<lambda>_. s), decode = (\<lambda>x. if x = s then Some t else None),
      hmac = (\<lambda>secret c. zero_padded secret)\<rparr>"

section \<open>Rounding\<close>

lemma pow2_powi: "pow2 k = 2 powi k"
  by (simp add: pow2_def power_int_def power_one_over)

lemma pow2_pos: "0 < pow2 k"
  by (simp add: pow2_powi)

lemma pow2_add: "pow2 (a + b) = pow2 a * pow2 b"
  by (simp add: pow2_powi power_int_add)

lemma pow2_mono: "a \<le> b \<Longrightarrow> pow2 a \<le> pow2 b"
  by (simp add: pow2_powi power_int_increasing)

lemma pow2_less_cancel: "pow2 a < pow2 b \<Longrightarrow> a < b"
  using pow2_mono [of b a] by (cases "a < b") auto

lemma pow2_nat: "pow2 (int n) = 2 ^ n"
  by (simp add: pow2_def)

lemma quotient_of_pos:
  assumes "0 < q"
  shows "0 < fst (quotient_of q)" and "0 < snd (quotient_of q)"
    and "q = of_int (fst (quotient_of q)) / of_int (snd (quotient_of q))"
proof -
  obtain n d where nd: "quotient_of q = (n, d)" by (cases "quotient_of q")
  then have d: "0 < d" by (rule quotient_of_denom_pos)
  have q: "q = of_int n / of_int d" using nd by (rule quotient_of_div)
  with assms d have "0 < n" by (simp add: zero_less_divide_iff)
  with d q nd show "0 < fst (quotient_of q)" and "0 < snd (quotient_of q)"
    and "q = of_int (fst (quotient_of q)) / of_int (snd (quotient_of q))" by simp_all
qed

lemma bitlen_pow2_bounds:
  assumes "0 < n"
  shows "pow2 (bitlen n - 1) \<le> of_int n" and "of_int n < pow2 (bitlen n)"
proof -
  from assms have b: "1 \<le> bitlen n" by (auto simp: bitlen_alt_def)
  from bitlen_bounds [OF assms]
  have lo: "2 ^ nat (bitlen n - 1) \<le> n" and hi: "n < 2 ^ nat (bitlen n)" by simp_all
  from lo have "(of_int (2 ^ nat (bitlen n - 1)) :: rat) \<le> of_int n" by (simp only: of_int_le_iff)
  with b show "pow2 (bitlen n - 1) \<le> of_int n" by (simp add: pow2_def)
  from hi have "(of_int n :: rat) < of_int (2 ^ nat (bitlen n))" by (simp only: of_int_less_iff)
  with b show "of_int n < pow2 (bitlen n)" by (simp add: pow2_def)
qed

lemma floor_log2_bounds:
  assumes "0 < q"
  shows "pow2 (floor_log2 q) \<le> q \<and> q < pow2 (floor_log2 q + 1)"
proof -
  define n where "n = fst (quotient_of q)"
  define d where "d = snd (quotient_of q)"
  define k where "k = bitlen n - bitlen d"
  from quotient_of_pos [OF assms]
  have n: "0 < n" and d: "0 < d" and q: "q = of_int n / of_int d"
    by (simp_all add: n_def d_def)
  note bn = bitlen_pow2_bounds [OF n]
  note bd = bitlen_pow2_bounds [OF d]
  have d': "(0::rat) < of_int d" using d by simp
  have "q * of_int d < pow2 (bitlen n)" using bn(2) q d' by simp
  also have "\<dots> = pow2 (k + 1) * pow2 (bitlen d - 1)"
    by (simp add: k_def pow2_add [symmetric])
  also have "\<dots> \<le> pow2 (k + 1) * of_int d"
    using bd(1) pow2_pos [of "k + 1"] by simp
  finally have hi: "q < pow2 (k + 1)" using d' by simp
  have "pow2 (k - 1) * of_int d < pow2 (k - 1) * pow2 (bitlen d)"
    using bd(2) pow2_pos [of "k - 1"] by simp
  also have "\<dots> = pow2 (bitlen n - 1)"
    by (simp add: k_def pow2_add [symmetric])
  also have "\<dots> \<le> q * of_int d" using bn(1) q d' by simp
  finally have lo: "pow2 (k - 1) < q" using d' by simp
  have fl: "floor_log2 q = (if pow2 k \<le> q then k else k - 1)"
    by (simp add: floor_log2_def k_def n_def d_def Let_def)
  show ?thesis
  proof (cases "pow2 k \<le> q")
    case True
    with fl hi show ?thesis by simp
  next
    case False
    with fl lo show ?thesis by simp
  qed
qed

lemma round_half_even_nonneg: "0 \<le> x \<Longrightarrow> 0 \<le> round_half_even x"
  by (auto simp add: round_half_even_def Let_def) 

lemma round_half_even_le: "x \<le> of_int n \<Longrightarrow> round_half_even x \<le> n"
proof -
  assume a: "x \<le> of_int n"
  then have f: "\<lfloor>x\<rfloor> \<le> n" by (simp add: floor_le_iff) 
  show ?thesis
  proof (cases "\<lfloor>x\<rfloor> = n")
    case True
    with a have "x - of_int \<lfloor>x\<rfloor> \<le> 0" by simp
    then show ?thesis using True by (simp add: round_half_even_def Let_def)
  next
    case False
    with f have "\<lfloor>x\<rfloor> + 1 \<le> n" by simp
    with f show ?thesis by (auto simp add: round_half_even_def Let_def)
  qed
qed

lemma max_double_pow2: "max_double = (2 ^ 53 - 1) * pow2 971"
  by (simp add: max_double_def pow2_def)

lemma max_double_pos: "0 < max_double"
  by (simp add: max_double_pow2 pow2_pos)

lemma max_double_less: "max_double < pow2 1024"
proof -
  have "pow2 1024 = 2 ^ 53 * pow2 971"
    using pow2_add [of 53 971] pow2_nat [of 53] by simp
  then show ?thesis using pow2_pos [of 971] by (simp add: max_double_pow2)
qed

lemma round64_finite:
  assumes "0 \<le> q" and "q \<le> max_double"
  shows "\<exists>r. round64 q = Fin r \<and> 0 \<le> r \<and> r \<le> max_double"
proof (cases "q = 0")
  case True
  then show ?thesis using max_double_pos by (simp add: round64_def)
next
  case False
  with assms have q: "0 < q" by simp
  define k where "k = floor_log2 q"
  define e where "e = max (k - 52) (- 1074)"
  define m where "m = round_half_even (q / pow2 e)"
  define r where "r = of_int m * pow2 e"
  have r64: "round64 q = (if max_double < r then PInf else Fin r)"
    using q by (simp add: round64_def Let_def k_def e_def m_def r_def)
  from floor_log2_bounds [OF q] have lo: "pow2 k \<le> q" and hi: "q < pow2 (k + 1)"
    by (simp_all add: k_def)
  have "0 \<le> q / pow2 e" using q pow2_pos [of e] by simp
  then have m0: "0 \<le> m" unfolding m_def by (rule round_half_even_nonneg)
  then have r0: "0 \<le> r" using pow2_pos [of e] by (simp add: r_def)
  from lo assms(2) max_double_less have "pow2 k < pow2 1024" by simp
  then have "k < 1024" by (rule pow2_less_cancel)
  then have e971: "e \<le> 971" by (simp add: e_def)
  have rmax: "r \<le> max_double"
  proof (cases "e = 971")
    case True
    from assms(2) have "q / pow2 e \<le> 2 ^ 53 - 1"
      using pow2_pos [of 971] True by (simp add: max_double_pow2 pos_divide_le_eq)
    also have "\<dots> = of_int (2 ^ 53 - 1)" by simp
    finally have "m \<le> 2 ^ 53 - 1" unfolding m_def by (rule round_half_even_le)
    then have "(of_int m :: rat) \<le> of_int (2 ^ 53 - 1)" by (simp only: of_int_le_iff)
    then have "of_int m * pow2 971 \<le> (2 ^ 53 - 1) * pow2 971"
      using pow2_pos [of 971] by simp
    then show ?thesis using True by (simp add: r_def max_double_pow2)
  next
    case False
    with e971 have e970: "e \<le> 970" by simp
    have "k + 1 \<le> e + 53" by (simp add: e_def)
    then have "pow2 (k + 1) \<le> pow2 (e + 53)" by (rule pow2_mono)
    with hi have "q < pow2 (e + 53)" by simp
    also have "\<dots> = pow2 e * 2 ^ 53" using pow2_add [of e 53] pow2_nat [of 53] by simp
    finally have "q / pow2 e \<le> 2 ^ 53" using pow2_pos [of e] by (simp add: pos_divide_le_eq mult.commute)
    also have "\<dots> = of_int (2 ^ 53)" by simp
    finally have "m \<le> 2 ^ 53" unfolding m_def by (rule round_half_even_le)
    then have "(of_int m :: rat) \<le> of_int (2 ^ 53)" by (simp only: of_int_le_iff)
    then have "r \<le> 2 ^ 53 * pow2 e" using pow2_pos [of e] by (simp add: r_def)
    also have "\<dots> \<le> 2 ^ 53 * pow2 970" using pow2_mono [OF e970] by simp
    also have "\<dots> = 2 ^ 52 * pow2 971" using pow2_add [of 970 1] by (simp add: pow2_def)
    also have "\<dots> \<le> max_double" using pow2_pos [of 971] by (simp add: max_double_pow2)
    finally show ?thesis .
  qed
  with r64 r0 show ?thesis by simp
qed

lemma pow2_le_cancel: "pow2 a \<le> pow2 b \<Longrightarrow> a \<le> b"
proof (rule ccontr)
  assume le: "pow2 a \<le> pow2 b" and "\<not> a \<le> b"
  then have "b + 1 \<le> a" by simp
  then have "pow2 (b + 1) \<le> pow2 a" by (rule pow2_mono)
  moreover have "pow2 (b + 1) = 2 * pow2 b" using pow2_add [of b 1] by (simp add: pow2_def)
  ultimately show False using le pow2_pos [of b] by simp
qed

lemma round_half_even_of_int: "round_half_even (of_int j) = j"
  by (simp add: round_half_even_def)

lemma round64_of_nat_exact:
  assumes "n \<le> 2 ^ 53"
  shows "round64 (of_nat n) = Fin (of_nat n)"
proof (cases "n = 0")
  case True
  then show ?thesis by (simp add: round64_def)
next
  case False
  define q :: rat where "q = of_nat n"
  from False have q: "0 < q" and q1: "pow2 0 \<le> q" by (simp_all add: q_def pow2_def)
  from assms have "q \<le> of_nat (2 ^ 53)" unfolding q_def by (simp only: of_nat_le_iff)
  then have q53: "q \<le> pow2 53" using pow2_nat [of 53] by simp
  define k where "k = floor_log2 q"
  define e where "e = max (k - 52) (- 1074)"
  define r where "r = of_int (round_half_even (q / pow2 e)) * pow2 e"
  from floor_log2_bounds [OF q] have lo: "pow2 k \<le> q" and hi: "q < pow2 (k + 1)"
    by (simp_all add: k_def)
  from q1 hi have "pow2 0 < pow2 (k + 1)" by simp
  then have k0: "0 \<le> k" using pow2_less_cancel [of 0 "k + 1"] by simp
  from lo q53 have "pow2 k \<le> pow2 53" by simp
  then have k53: "k \<le> 53" by (rule pow2_le_cancel)
  from k0 have e: "e = k - 52" by (simp add: e_def)
  have rq: "r = q"
  proof (cases "k = 53")
    case True
    with lo q53 have "q = pow2 53" by simp
    then have q2: "q = 2 ^ 53" using pow2_nat [of 53] by simp
    have "q / pow2 e = of_int (2 ^ 52)" using True e by (simp add: q2 pow2_def)
    then have "round_half_even (q / pow2 e) = 2 ^ 52" by (simp only: round_half_even_of_int)
    then show ?thesis using True e by (simp add: r_def q2 pow2_def)
  next
    case False
    with k53 have e0: "e \<le> 0" using e by simp
    then have pe: "pow2 e * pow2 (- e) = 1" using pow2_add [of e "- e"] by (simp add: pow2_def)
    have "pow2 (- e) = of_int (2 ^ nat (- e))" using e0 by (simp add: pow2_def)
    then have "q / pow2 e = of_int (int n * 2 ^ nat (- e))"
      using pe pow2_pos [of e] by (simp add: q_def field_simps)
    then have "round_half_even (q / pow2 e) = int n * 2 ^ nat (- e)"
      by (simp only: round_half_even_of_int)
    then have "r = q * (pow2 (- e) * pow2 e)" using e0 by (simp add: r_def q_def pow2_def)
    then show ?thesis using pe by (simp add: mult.commute)
  qed
  have "q \<le> max_double"
  proof -
    have "pow2 53 \<le> pow2 971" by (rule pow2_mono) simp
    also have "\<dots> \<le> 2 ^ 52 * pow2 971" using pow2_pos [of 971] by simp
    also have "\<dots> \<le> max_double" using pow2_pos [of 971] by (simp add: max_double_pow2)
    finally show ?thesis using q53 by simp
  qed
  then have "round64 q = Fin q"
    using q rq by (simp add: round64_def Let_def k_def e_def r_def)
  then show ?thesis by (simp add: q_def)
qed

lemma floor_log2_unique:
  assumes "pow2 k \<le> q" and "q < pow2 (k + 1)"
  shows "floor_log2 q = k"
proof -
  have q: "0 < q" using assms(1) pow2_pos [of k] by simp
  from floor_log2_bounds [OF q]
  have lo: "pow2 (floor_log2 q) \<le> q" and hi: "q < pow2 (floor_log2 q + 1)" by simp_all
  from assms(1) hi have "pow2 k < pow2 (floor_log2 q + 1)" by simp
  then have "k < floor_log2 q + 1" by (rule pow2_less_cancel)
  moreover from lo assms(2) have "pow2 (floor_log2 q) < pow2 (k + 1)" by simp
  then have "floor_log2 q < k + 1" by (rule pow2_less_cancel)
  ultimately show ?thesis by simp
qed

lemma round64_eval:
  assumes "pow2 k \<le> q" and "q < pow2 (k + 1)" and "- 1022 \<le> k"
    and "round_half_even (q / pow2 (k - 52)) = m"
    and "of_int m * pow2 (k - 52) \<le> max_double"
  shows "round64 q = Fin (of_int m * pow2 (k - 52))"
proof -
  have q: "0 < q" using assms(1) pow2_pos [of k] by simp
  have e: "max (floor_log2 q - 52) (- 1074) = k - 52"
    using floor_log2_unique [OF assms(1,2)] assms(3) by simp
  show ?thesis using q assms(4,5) by (simp add: round64_def e Let_def)
qed

lemma pow2_le_max_double: "k \<le> 1023 \<Longrightarrow> pow2 k \<le> max_double"
proof -
  assume "k \<le> 1023"
  then have "pow2 k \<le> pow2 1023" by (rule pow2_mono)
  also have "\<dots> = 2 ^ 52 * pow2 971" using pow2_add [of 52 971] pow2_nat [of 52] by simp
  also have "\<dots> \<le> max_double" using pow2_pos [of 971] by (simp add: max_double_pow2)
  finally show ?thesis .
qed

lemma round_half_even_nearest:
  assumes "of_int m - 1 / 2 < x" and "x < of_int m + 1 / 2"
  shows "round_half_even x = m"
proof (cases "of_int m \<le> x")
  case True
  with assms(2) have "\<lfloor>x\<rfloor> = m" by (simp add: floor_unique)
  with assms(2) show ?thesis by (simp add: round_half_even_def)
next
  case False
  with assms(1) have "\<lfloor>x\<rfloor> = m - 1" by (simp add: floor_unique)
  with assms(1) show ?thesis by (simp add: round_half_even_def)
qed

lemma round64_1e20_5000: "round64 100000000000000005000 = Fin 100000000000000000000"
proof -
  have m: "round_half_even (100000000000000005000 / pow2 (66 - 52)) = 6103515625000000"
    by (rule round_half_even_nearest) (simp_all add: pow2_def)
  have "(100000000000000000000::rat) \<le> pow2 67" by (simp add: pow2_def)
  also have "\<dots> \<le> max_double" by (rule pow2_le_max_double) simp
  finally have b: "of_int 6103515625000000 * pow2 (66 - 52) \<le> max_double"
    by (simp add: pow2_def)
  have "round64 100000000000000005000 = Fin (of_int 6103515625000000 * pow2 (66 - 52))"
    by (rule round64_eval [OF _ _ _ m b]) (simp_all add: pow2_def)
  then show ?thesis by (simp add: pow2_def)
qed

lemma is_double_1e20: "is_double 100000000000000000000"
proof -
  have m: "round_half_even (100000000000000000000 / pow2 (66 - 52)) = 6103515625000000"
    by (rule round_half_even_nearest) (simp_all add: pow2_def)
  have "(100000000000000000000::rat) \<le> pow2 67" by (simp add: pow2_def)
  also have "\<dots> \<le> max_double" by (rule pow2_le_max_double) simp
  finally have b: "of_int 6103515625000000 * pow2 (66 - 52) \<le> max_double"
    by (simp add: pow2_def)
  have "round64 100000000000000000000 = Fin (of_int 6103515625000000 * pow2 (66 - 52))"
    by (rule round64_eval [OF _ _ _ m b]) (simp_all add: pow2_def)
  then show ?thesis by (simp add: pow2_def is_double_def)
qed

lemma is_double_of_nat: "n \<le> 2 ^ 53 \<Longrightarrow> is_double (of_nat n)"
  by (simp add: is_double_def round64_of_nat_exact)

lemma js_add_exact: "is_double (x + y) \<Longrightarrow> js_add (Fin x) (Fin y) = Fin (x + y)"
  by (simp add: is_double_def)

lemma js_sub_exact: "is_double (x - y) \<Longrightarrow> js_sub (Fin x) (Fin y) = Fin (x - y)"
  by (simp add: is_double_def js_sub_def)

lemma five_thousand_le_max_double: "5000 \<le> max_double"
proof -
  have "(5000::rat) \<le> 2 ^ 52 * 1" by simp
  also have "\<dots> \<le> 2 ^ 52 * pow2 971" using pow2_mono [of 0 971] by (simp add: pow2_def)
  also have "\<dots> \<le> max_double" using pow2_pos [of 971] by (simp add: max_double_pow2)
  finally show ?thesis .
qed

section \<open>The handlers on an account\<close>

lemma lookup_user_account: "accounts db u = Some a \<Longrightarrow> lookup_user db u = Some (Account u)"
  by (simp add: lookup_user_def)

lemma deposit_handler_account:
  assumes "accounts db u = Some a" and "username user = Some u"
  shows "deposit_handler db user amount =
     (if amount = Undefined \<or> amount = Null then (AmountRequired, db)
      else
        (case parseFloat amount of
           None \<Rightarrow> (InternalServerError, db)
         | Some n \<Rightarrow>
             if isNaN n then (AmountNotNumber, db)
             else if js_le n (Fin 0) then (AmountNotPositive, db)
             else (Deposited (Some u) (Some (js_add (balance a) n)) n,
                   db\<lparr>accounts := (accounts db)(u \<mapsto> a\<lparr>balance := js_add (balance a) n\<rparr>)\<rparr>)))"
  using assms
  by (simp add: deposit_handler_def property_key_def lookup_user_account get_balance_def
      set_balance_def to_number_def Let_def split: option.split)

lemma withdraw_handler_account:
  assumes "accounts db u = Some a" and "username user = Some u"
  shows "withdraw_handler db user amount =
     (if amount = Undefined \<or> amount = Null then (AmountRequired, db)
      else
        (case parseFloat amount of
           None \<Rightarrow> (InternalServerError, db)
         | Some n \<Rightarrow>
             if isNaN n then (AmountNotNumber, db)
             else if js_le n (Fin 0) then (AmountNotPositive, db)
             else if js_lt (balance a) n then (InsufficientBalance (Some (balance a)), db)
             else (Withdrew (Some u) (Some (js_sub (balance a) n)) n,
                   db\<lparr>accounts := (accounts db)(u \<mapsto> a\<lparr>balance := js_sub (balance a) n\<rparr>)\<rparr>)))"
  using assms
  by (simp add: withdraw_handler_def property_key_def lookup_user_account get_balance_def
      set_balance_def to_number_def Let_def split: option.split)

lemma withdraw_step_solvent:
  assumes "solvent db u" and "username user = Some u"
  shows "solvent (snd (withdraw_handler db user amount)) u"
proof -
  from assms(1) obtain a b where a: "accounts db u = Some a" and b: "balance a = Fin b"
    and b0: "0 \<le> b" and bm: "b \<le> max_double"
    by (auto simp add: solvent_def split: option.splits number.splits)
  note w = withdraw_handler_account [OF a assms(2), of amount]
  show ?thesis
  proof (cases "fst (withdraw_handler db user amount)")
    case (Withdrew un bal n)
    with w have ok: "amount \<noteq> Undefined" "amount \<noteq> Null" "parseFloat amount = Some n"
      "\<not> isNaN n" "\<not> js_le n (Fin 0)" "\<not> js_lt (Fin b) n"
      using b by (auto split: if_splits option.splits)
    then obtain x where n: "n = Fin x" and x: "0 < x" "x \<le> b"
      by (cases n) (auto simp add: isNaN_def)
    from x b0 bm have "0 \<le> b - x" "b - x \<le> max_double" by simp_all
    from round64_finite [OF this] obtain r where
      r: "round64 (b - x) = Fin r" "0 \<le> r" "r \<le> max_double" by blast
    from ok n b r w show ?thesis by (simp add: solvent_def js_sub_def isNaN_def)
  qed (use w assms(1) in \<open>auto split: if_splits option.splits\<close>)
qed

lemma debits_solvent:
  assumes "username user = Some u"
  shows "solvent db u \<Longrightarrow> solvent (debits db user amounts) u"
proof (induction amounts arbitrary: db)
  case Nil
  then show ?case by (simp add: debits_def)
next
  case (Cons amount amounts)
  from Cons.prems have "solvent (snd (withdraw_handler db user amount)) u"
    using assms by (rule withdraw_step_solvent)
  then have "solvent (debits (snd (withdraw_handler db user amount)) user amounts) u"
    by (rule Cons.IH)
  then show ?case by (simp add: debits_def)
qed

lemma withdraw_insufficient:
  assumes "accounts db u = Some a" and "username user = Some u"
    and "balance a = Fin b" and "0 \<le> b"
    and "parseFloat amount = Some n" and "js_lt (Fin b) n"
  shows "withdraw_handler db user amount = (InsufficientBalance (Some (Fin b)), db)"
proof -
  from assms(6) have n: "n \<noteq> NaN" "\<not> js_le n (Fin 0)"
    using assms(4) by (cases n; simp)+
  from assms(5) n(1) have "amount \<noteq> Undefined" "amount \<noteq> Null"
    by (auto simp add: parseFloat_def)
  with assms n show ?thesis
    by (simp add: withdraw_handler_account [OF assms(1,2)] isNaN_def)
qed

lemma js_lt_zero_positive:
  assumes "js_lt (Fin 0) n"
  shows "\<not> isNaN n" and "\<not> js_le n (Fin 0)"
  using assms by (cases n; simp add: isNaN_def)+

lemma parseFloat_not_absent:
  assumes "parseFloat amount = Some n" and "n \<noteq> NaN"
  shows "amount \<noteq> Undefined" and "amount \<noteq> Null"
  using assms by (auto simp add: parseFloat_def)

lemma deposit_handler_valid:
  assumes "accounts db u = Some a" and "username user = Some u"
    and "parseFloat amount = Some n" and "js_lt (Fin 0) n"
  shows "deposit_handler db user amount =
     (Deposited (Some u) (Some (js_add (balance a) n)) n,
      db\<lparr>accounts := (accounts db)(u \<mapsto> a\<lparr>balance := js_add (balance a) n\<rparr>)\<rparr>)"
proof -
  note p = js_lt_zero_positive [OF assms(4)]
  from p(1) have "n \<noteq> NaN" by (simp add: isNaN_def)
  from parseFloat_not_absent [OF assms(3) this] p assms(3)
  show ?thesis by (simp add: deposit_handler_account [OF assms(1,2)])
qed

lemma withdraw_handler_valid:
  assumes "accounts db u = Some a" and "username user = Some u"
    and "parseFloat amount = Some n" and "js_lt (Fin 0) n" and "\<not> js_lt (balance a) n"
  shows "withdraw_handler db user amount =
     (Withdrew (Some u) (Some (js_sub (balance a) n)) n,
      db\<lparr>accounts := (accounts db)(u \<mapsto> a\<lparr>balance := js_sub (balance a) n\<rparr>)\<rparr>)"
proof -
  note p = js_lt_zero_positive [OF assms(4)]
  from p(1) have "n \<noteq> NaN" by (simp add: isNaN_def)
  from parseFloat_not_absent [OF assms(3) this] p assms(3,5)
  show ?thesis by (simp add: withdraw_handler_account [OF assms(1,2)])
qed

lemma parseFloat_JNum: "parseFloat (JNum n) = Some n"
  by (simp add: parseFloat_def)

lemma parseFloat_250: "parseFloat (JStr ''250'') = Some (Fin 250)"
proof -
  have "round64 (of_nat 250) = Fin (of_nat 250)" by (rule round64_of_nat_exact) simp
  then show ?thesis
    by (simp add: parseFloat_def parse_float_string_def unsigned_literal_def is_white_space_def
        is_digit_def digits_value_def exponent_part_def scale10_def)
qed

lemma parseFloat_Infinity: "parseFloat (JStr ''Infinity'') = Some PInf"
  by (simp add: parseFloat_def parse_float_string_def unsigned_literal_def is_white_space_def)

lemma parseFloat_abc: "parseFloat (JStr ''abc'') = Some NaN"
  by (simp add: parseFloat_def parse_float_string_def unsigned_literal_def is_white_space_def
      is_digit_def)

lemma john_account:
  "accounts userDatabase ''john_doe'' = Some \<lparr>password = ''password123'', balance = Fin 5000\<rparr>"
  by (simp add: userDatabase_def)

lemma amount_required:
  assumes "accounts db u = Some a" and "username user = Some u"
    and "amount = Undefined \<or> amount = Null"
  shows "deposit_handler db user amount = (AmountRequired, db)"
    and "withdraw_handler db user amount = (AmountRequired, db)"
  using assms(3)
  by (auto simp add: deposit_handler_account [OF assms(1,2)]
      withdraw_handler_account [OF assms(1,2)])

lemma amount_not_number:
  assumes "accounts db u = Some a" and "username user = Some u"
    and "amount \<noteq> Undefined" and "amount \<noteq> Null" and "parseFloat amount = Some NaN"
  shows "deposit_handler db user amount = (AmountNotNumber, db)"
    and "withdraw_handler db user amount = (AmountNotNumber, db)"
  using assms(3-5)
  by (simp_all add: deposit_handler_account [OF assms(1,2)]
      withdraw_handler_account [OF assms(1,2)] isNaN_def)

lemma amount_not_positive:
  assumes "accounts db u = Some a" and "username user = Some u"
    and "parseFloat amount = Some n" and "js_le n (Fin 0)"
  shows "deposit_handler db user amount = (AmountNotPositive, db)"
    and "withdraw_handler db user amount = (AmountNotPositive, db)"
proof -
  from assms(4) have n: "n \<noteq> NaN" by (cases n) simp_all
  with assms(3) have "amount \<noteq> Undefined" "amount \<noteq> Null"
    by (auto simp add: parseFloat_def)
  with assms(3,4) n
  show "deposit_handler db user amount = (AmountNotPositive, db)"
    and "withdraw_handler db user amount = (AmountNotPositive, db)"
    by (simp_all add: deposit_handler_account [OF assms(1,2)]
        withdraw_handler_account [OF assms(1,2)] isNaN_def)
qed

lemma rejected_deposit_keeps_state:
  "status (fst (deposit_handler db user amount)) \<noteq> 200 \<Longrightarrow>
     snd (deposit_handler db user amount) = db"
  by (auto simp add: deposit_handler_def Let_def split: option.splits if_splits)

lemma rejected_withdraw_keeps_state:
  "status (fst (withdraw_handler db user amount)) \<noteq> 200 \<Longrightarrow>
     snd (withdraw_handler db user amount) = db"
  by (auto simp add: withdraw_handler_def Let_def split: option.splits if_splits)

lemma no_user_not_found:
  assumes "lookup_user db (property_key (username user)) = None"
  shows "balance_handler db user = UserNotFound"
    and "deposit_handler db user amount = (UserNotFound, db)"
    and "withdraw_handler db user amount = (UserNotFound, db)"
  using assms by (simp_all add: balance_handler_def deposit_handler_def withdraw_handler_def)

lemma set_balance_dom: "dom (accounts (set_balance db u v)) = dom (accounts db)"
  by (auto simp add: set_balance_def split: user_ref.splits option.splits)

lemma deposit_keeps_account_names:
  "dom (accounts (snd (deposit_handler db user amount))) = dom (accounts db)"
  by (simp add: deposit_handler_def Let_def set_balance_dom split: option.split)

lemma withdraw_keeps_account_names:
  "dom (accounts (snd (withdraw_handler db user amount))) = dom (accounts db)"
  by (simp add: withdraw_handler_def Let_def set_balance_dom split: option.split)

lemma userDatabase_account_names: "dom (accounts userDatabase) = {''john_doe''}"
  by (simp add: userDatabase_def)

section \<open>The middleware on a header\<close>

lemma split_no_sep: "sep \<notin> set s \<Longrightarrow> split sep s = [s]"
  by (induction s) auto

lemma split_append_sep: "sep \<notin> set a \<Longrightarrow> split sep (a @ sep # r) = a # split sep r"
  by (induction a) auto

lemma split_not_Nil: "split sep s \<noteq> []"
  by (induction s) (auto split: list.split)

lemma split_two_iff:
  "split sep h = [a, b] \<longleftrightarrow> h = a @ sep # b \<and> sep \<notin> set a \<and> sep \<notin> set b"
proof
  assume "h = a @ sep # b \<and> sep \<notin> set a \<and> sep \<notin> set b"
  then show "split sep h = [a, b]" by (simp add: split_append_sep split_no_sep)
next
  have one: "split sep s = [p] \<Longrightarrow> s = p \<and> sep \<notin> set p" for s p
  proof (induction s arbitrary: p)
    case Nil
    then show ?case by simp
  next
    case (Cons c s)
    then show ?case using split_not_Nil [of sep s]
      by (auto split: if_splits list.splits)
  qed
  show "split sep h = [a, b] \<Longrightarrow> h = a @ sep # b \<and> sep \<notin> set a \<and> sep \<notin> set b"
  proof (induction h arbitrary: a)
    case Nil
    then show ?case by simp
  next
    case (Cons c h)
    show ?case
    proof (cases "c = sep")
      case True
      with Cons.prems have "a = []" "split sep h = [b]" by simp_all
      with one [of h b] True show ?thesis by simp
    next
      case False
      with Cons.prems obtain p where p: "split sep h = [p, b]" "a = c # p"
        by (auto split: list.splits)
      from Cons.IH [OF p(1)] p(2) False show ?thesis by simp
    qed
  qed
qed

lemma authMiddleware_bearer:
  assumes "CHR '' '' \<notin> set token"
  shows "authMiddleware lib cfg now (Some (''Bearer '' @ token)) =
     (case jwt_verify lib now token (JWT_SECRET cfg) of
        Inr decoded \<Rightarrow> Inr decoded
      | Inl (TokenExpiredError expiredAt) \<Rightarrow> Inl (TokenExpired expiredAt)
      | Inl JsonWebTokenError \<Rightarrow> Inl InvalidToken
      | Inl NotBeforeError \<Rightarrow> Inl TokenVerificationFailed)"
proof -
  have "split (CHR '' '') (''Bearer '' @ token) = [''Bearer'', token]"
    using assms split_two_iff [of "CHR '' ''" "''Bearer '' @ token" "''Bearer''" token] by simp
  then show ?thesis by (simp add: authMiddleware_def)
qed

lemma authMiddleware_malformed:
  assumes "h \<noteq> []" and "\<not> (\<exists>token. h = ''Bearer '' @ token \<and> CHR '' '' \<notin> set token)"
  shows "authMiddleware lib cfg now (Some h) = Inl InvalidTokenFormat"
proof -
  have "split (CHR '' '') h \<noteq> [''Bearer'', token]" for token
    using assms(2) split_two_iff [of "CHR '' ''" h "''Bearer''" token] by auto
  then show ?thesis using assms(1)
    by (auto simp add: authMiddleware_def split: list.split)
qed

lemma jwt_verify_signed:
  assumes "decode lib tok = Some (sign_claims lib secret c)"
  shows "jwt_verify lib now tok secret =
     (if not_active c (now div 1000) then Inl NotBeforeError
      else (case expiry_date c (now div 1000) of
              Some d \<Rightarrow> Inl (TokenExpiredError d)
            | None \<Rightarrow> Inr c))"
  using assms by (simp add: jwt_verify_def sign_claims_def split: option.split)

lemma jwt_verify_forged:
  assumes "decode lib tok = Some (sign_claims lib secret' c)"
    and "hmac lib secret' c \<noteq> hmac lib secret c"
  shows "jwt_verify lib now tok secret = Inl JsonWebTokenError"
  using assms by (simp add: jwt_verify_def sign_claims_def)

lemma split_bearer_iff:
  "split (CHR '' '') h = [''Bearer'', token] \<longleftrightarrow>
     h = ''Bearer '' @ token \<and> CHR '' '' \<notin> set token"
  using split_two_iff [of "CHR '' ''" h "''Bearer''" token] by simp

lemma login_issues:
  "login lib cfg t0 (JStr VALID_USERNAME) (JStr VALID_PASSWORD) =
     LoginSuccessful (encode lib (sign_claims lib (JWT_SECRET cfg)
       (issued_claims t0 VALID_USERNAME (JWT_EXPIRES_IN cfg))))"
  and "username (issued_claims t0 uname expiresIn) = Some uname"
  and "nbf (issued_claims t0 uname expiresIn) = None"
  and "exp_claim (issued_claims t0 uname expiresIn) = Some (t0 div 1000 + expiresIn)"
  by (simp_all add: login_def jwt_sign_def issued_claims_def VALID_USERNAME_def
      VALID_PASSWORD_def)

lemma zero_padded_NUL:
  assumes "length key < 64"
  shows "zero_padded (key @ [CHR 0x00]) = zero_padded key"
proof -
  from assms have "64 - length key = Suc (64 - Suc (length key))" by simp
  then have "replicate (64 - length key) (CHR 0x00) =
      CHR 0x00 # replicate (64 - Suc (length key)) (CHR 0x00)"
    by (simp only: replicate_Suc)
  then show ?thesis by (simp add: zero_padded_def)
qed

lemma default_secret_length: "length (JWT_SECRET default_config) < 64"
  by (simp add: default_config_def)

lemma prepared_key_collision:
  assumes "\<And>secret. hmac lib secret c = H (zero_padded secret) c"
    and "length key < 64"
  shows "hmac lib (key @ [CHR 0x00]) c = hmac lib key c"
  using assms(2) by (simp add: assms(1) zero_padded_NUL)

lemma falsy_iff:
  "falsy v \<longleftrightarrow>
     v = Undefined \<or> v = Null \<or> v = JBool False \<or> v = JNum NaN \<or> v = JNum (Fin 0) \<or> v = JStr []"
  by (cases v) auto

section \<open>The claims\<close>

text \<open>
  C1. No run of debits makes the balance negative: from an account whose balance is a
  finite number that is not negative, the balance after any list of \<^verbatim>\<open>POST /withdraw\<close>
  bodies, whatever their amounts, is again a finite number that is not negative. And a
  debit whose amount exceeds the balance answers 400 \<^verbatim>\<open>Insufficient balance\<close> with the
  current balance as \<^verbatim>\<open>currentBalance\<close>, and leaves the state as it was.
\<close>

theorem debits_keep_balance_nonnegative:
  assumes "accounts db u = Some a" and "balance a = Fin b" and "0 \<le> b" and "b \<le> max_double"
    and "username user = Some u"
  shows "(\<exists>a' b'. accounts (debits db user amounts) u = Some a' \<and> balance a' = Fin b'
            \<and> 0 \<le> b' \<and> b' \<le> max_double)
       \<and> (\<forall>amount n. parseFloat amount = Some n \<and> js_lt (Fin b) n \<longrightarrow>
            withdraw_handler db user amount = (InsufficientBalance (Some (Fin b)), db))"
proof
  from assms(1-4) have "solvent db u" by (simp add: solvent_def)
  with assms(5) have "solvent (debits db user amounts) u" by (rule debits_solvent)
  then show "\<exists>a' b'. accounts (debits db user amounts) u = Some a' \<and> balance a' = Fin b'
      \<and> 0 \<le> b' \<and> b' \<le> max_double"
    by (auto simp add: solvent_def split: option.splits number.splits)
next
  show "\<forall>amount n. parseFloat amount = Some n \<and> js_lt (Fin b) n \<longrightarrow>
      withdraw_handler db user amount = (InsufficientBalance (Some (Fin b)), db)"
    using withdraw_insufficient [OF assms(1,5,2,3)] by blast
qed

theorem debits_keep_balance_nonnegative_witness:
  "accounts userDatabase ''john_doe'' = Some \<lparr>password = ''password123'', balance = Fin 5000\<rparr>
   \<and> (\<exists>a' b'. accounts (debits userDatabase
                  \<lparr>username = Some ''john_doe'', iat = None, nbf = None, exp_claim = None\<rparr>
                  [JNum (Fin 500), JStr ''50000'']) ''john_doe'' = Some a'
          \<and> balance a' = Fin b' \<and> 0 \<le> b' \<and> b' \<le> max_double)
   \<and> withdraw_handler userDatabase
        \<lparr>username = Some ''john_doe'', iat = None, nbf = None, exp_claim = None\<rparr>
        (JNum (Fin 50000))
      = (InsufficientBalance (Some (Fin 5000)), userDatabase)"
proof -
  let ?a = "\<lparr>password = ''password123'', balance = Fin 5000\<rparr>"
  let ?u = "\<lparr>username = Some ''john_doe'', iat = None, nbf = None, exp_claim = None\<rparr>"
  have a: "accounts userDatabase ''john_doe'' = Some ?a" by (simp add: userDatabase_def)
  have b: "balance ?a = Fin 5000" by simp
  have u: "username ?u = Some ''john_doe''" by simp
  have p: "parseFloat (JNum (Fin 50000)) = Some (Fin 50000) \<and> js_lt (Fin 5000) (Fin 50000)"
    by (simp add: parseFloat_def)
  from debits_keep_balance_nonnegative
    [OF a b _ five_thousand_le_max_double u, of "[JNum (Fin 500), JStr ''50000'']"] p a
  show ?thesis by simp
qed

text \<open>
  C2. A token that carries the MAC of its claims under the configured secret, with expiry
  \<open>e\<close> (in seconds) and no \<^verbatim>\<open>nbf\<close>, as \<^verbatim>\<open>/login\<close> issues them (lemma \<open>login_issues\<close>),
  passes the middleware at every time before \<open>e * 1000\<close> milliseconds, and its claims,
  the username among them, become \<^verbatim>\<open>req.user\<close>. From \<open>e * 1000\<close> on the answer is
  401 \<^verbatim>\<open>Token expired\<close>, with the date \<open>e * 1000\<close> as \<^verbatim>\<open>expiredAt\<close>. Of the library it is
  assumed that the token string decodes to these signed claims and holds no space.
\<close>

theorem gate_accepts_until_expiry:
  assumes "decode lib tok = Some (sign_claims lib (JWT_SECRET cfg) c)"
    and "CHR '' '' \<notin> set tok"
    and "exp_claim c = Some e" and "nbf c = None"
  shows "(now < e * 1000 \<longrightarrow> authMiddleware lib cfg now (Some (''Bearer '' @ tok)) = Inr c)
       \<and> (e * 1000 \<le> now \<longrightarrow>
            authMiddleware lib cfg now (Some (''Bearer '' @ tok)) = Inl (TokenExpired (e * 1000)))"
proof -
  have lt: "now < e * 1000 \<longleftrightarrow> now div 1000 < e"
    by (simp add: div_less_iff_less_mult)
  show ?thesis
    using assms(3,4) lt authMiddleware_bearer [OF assms(2), of lib cfg now]
    by (auto simp add: jwt_verify_signed [OF assms(1)] not_active_def expiry_date_def)
qed

theorem gate_accepts_until_expiry_witness:
  "login (single_token ''tok'' \<lparr>payload = issued_claims 0 VALID_USERNAME 86400,
                                  signature = JWT_SECRET default_config\<rparr>)
     default_config 0 (JStr ''john_doe'') (JStr ''password123'') = LoginSuccessful ''tok''
   \<and> authMiddleware (single_token ''tok'' \<lparr>payload = issued_claims 0 VALID_USERNAME 86400,
                                  signature = JWT_SECRET default_config\<rparr>)
       default_config 86399999 (Some ''Bearer tok'') = Inr (issued_claims 0 VALID_USERNAME 86400)
   \<and> authMiddleware (single_token ''tok'' \<lparr>payload = issued_claims 0 VALID_USERNAME 86400,
                                  signature = JWT_SECRET default_config\<rparr>)
       default_config 86400000 (Some ''Bearer tok'') = Inl (TokenExpired 86400000)"
proof -
  let ?c = "issued_claims 0 VALID_USERNAME 86400"
  let ?lib = "single_token ''tok'' \<lparr>payload = ?c, signature = JWT_SECRET default_config\<rparr>"
  have d: "decode ?lib ''tok'' = Some (sign_claims ?lib (JWT_SECRET default_config) ?c)"
    by (simp add: single_token_def sign_claims_def)
  have s: "CHR '' '' \<notin> set ''tok''" by simp
  have e: "exp_claim ?c = Some 86400" and n: "nbf ?c = None"
    by (simp_all add: issued_claims_def)
  have l: "login ?lib default_config 0 (JStr ''john_doe'') (JStr ''password123'')
      = LoginSuccessful ''tok''"
    by (simp add: login_def VALID_USERNAME_def VALID_PASSWORD_def jwt_sign_def single_token_def)
  from gate_accepts_until_expiry [OF d s e n, of 86399999]
    gate_accepts_until_expiry [OF d s e n, of 86400000] l
  show ?thesis by simp
qed

text \<open>
  C3, as stated, fails when the other secret has the MAC of the configured one. HMAC
  prepares its key by padding, so the configured secret followed by a zero byte is another
  secret with the same prepared key (lemma \<open>prepared_key_collision\<close>): a token signed
  with it passes the middleware.
\<close>

theorem gate_accepts_colliding_secret:
  "JWT_SECRET default_config @ [CHR 0x00] \<noteq> JWT_SECRET default_config
   \<and> decode (padded_key_mac ''tok''
         \<lparr>payload = issued_claims 0 ''john_doe'' 86400,
          signature = zero_padded (JWT_SECRET default_config @ [CHR 0x00])\<rparr>) ''tok''
      = Some (sign_claims (padded_key_mac ''tok''
         \<lparr>payload = issued_claims 0 ''john_doe'' 86400,
          signature = zero_padded (JWT_SECRET default_config @ [CHR 0x00])\<rparr>)
         (JWT_SECRET default_config @ [CHR 0x00]) (issued_claims 0 ''john_doe'' 86400))
   \<and> authMiddleware (padded_key_mac ''tok''
         \<lparr>payload = issued_claims 0 ''john_doe'' 86400,
          signature = zero_padded (JWT_SECRET default_config @ [CHR 0x00])\<rparr>)
       default_config 1000 (Some ''Bearer tok'') = Inr (issued_claims 0 ''john_doe'' 86400)"
proof -
  let ?c = "issued_claims 0 ''john_doe'' 86400"
  let ?s = "JWT_SECRET default_config @ [CHR 0x00]"
  let ?lib = "padded_key_mac ''tok'' \<lparr>payload = ?c, signature = zero_padded ?s\<rparr>"
  have n: "?s \<noteq> JWT_SECRET default_config" by simp
  have d: "decode ?lib ''tok'' = Some (sign_claims ?lib ?s ?c)"
    by (simp add: padded_key_mac_def sign_claims_def)
  have z: "zero_padded ?s = zero_padded (JWT_SECRET default_config)"
    using default_secret_length by (rule zero_padded_NUL)
  have d': "decode ?lib ''tok'' = Some (sign_claims ?lib (JWT_SECRET default_config) ?c)"
    by (simp add: padded_key_mac_def sign_claims_def z)
  have v: "jwt_verify ?lib 1000 ''tok'' (JWT_SECRET default_config) = Inr ?c"
    unfolding jwt_verify_signed [OF d']
    by (simp add: not_active_def expiry_date_def issued_claims_def)
  have s: "CHR '' '' \<notin> set ''tok''" by simp
  have g: "authMiddleware ?lib default_config 1000 (Some ''Bearer tok'') = Inr ?c"
    using authMiddleware_bearer [OF s, of ?lib default_config 1000] by (simp add: v)
  from n d g show ?thesis by (intro conjI)
qed

text \<open>
  C3, amended. A token whose signature is the MAC of its claims under another secret, a
  MAC that differs from the MAC of these claims under the configured secret, is answered
  401 \<^verbatim>\<open>Invalid token\<close>, whatever its claims are: the signature is checked before
  \<^verbatim>\<open>nbf\<close> and \<^verbatim>\<open>exp\<close>.
\<close>

theorem gate_rejects_other_mac:
  assumes "decode lib tok = Some (sign_claims lib secret' c)"
    and "CHR '' '' \<notin> set tok"
    and "hmac lib secret' c \<noteq> hmac lib (JWT_SECRET cfg) c"
  shows "secret' \<noteq> JWT_SECRET cfg
       \<and> authMiddleware lib cfg now (Some (''Bearer '' @ tok)) = Inl InvalidToken"
proof
  from assms(3) show "secret' \<noteq> JWT_SECRET cfg" by auto
  from assms(1,3) have "jwt_verify lib now tok (JWT_SECRET cfg) = Inl JsonWebTokenError"
    by (rule jwt_verify_forged)
  with authMiddleware_bearer [OF assms(2), of lib cfg now]
  show "authMiddleware lib cfg now (Some (''Bearer '' @ tok)) = Inl InvalidToken" by simp
qed

theorem gate_rejects_other_mac_witness:
  "hmac (padded_key_mac ''tok'' \<lparr>payload = issued_claims 0 ''admin'' 86400,
                                   signature = zero_padded ''another-secret''\<rparr>)
       ''another-secret'' (issued_claims 0 ''admin'' 86400)
     \<noteq> hmac (padded_key_mac ''tok'' \<lparr>payload = issued_claims 0 ''admin'' 86400,
                                   signature = zero_padded ''another-secret''\<rparr>)
       (JWT_SECRET default_config) (issued_claims 0 ''admin'' 86400)
   \<and> authMiddleware (padded_key_mac ''tok'' \<lparr>payload = issued_claims 0 ''admin'' 86400,
                                   signature = zero_padded ''another-secret''\<rparr>)
       default_config 1000 (Some ''Bearer tok'') = Inl InvalidToken"
proof -
  let ?c = "issued_claims 0 ''admin'' 86400"
  let ?lib = "padded_key_mac ''tok'' \<lparr>payload = ?c, signature = zero_padded ''another-secret''\<rparr>"
  have d: "decode ?lib ''tok'' = Some (sign_claims ?lib ''another-secret'' ?c)"
    by (simp add: padded_key_mac_def sign_claims_def)
  have s: "CHR '' '' \<notin> set ''tok''" by simp
  have h: "hmac ?lib ''another-secret'' ?c \<noteq> hmac ?lib (JWT_SECRET default_config) ?c"
    by (simp add: padded_key_mac_def zero_padded_def default_config_def)
  from gate_rejects_other_mac [OF d s h, of 1000] h show ?thesis by simp
qed

text \<open>
  C4. The validation of the amount lets the string \<^verbatim>\<open>Infinity\<close> through: \<^verbatim>\<open>parseFloat\<close>
  reads it as the Number Infinity, which \<^verbatim>\<open>isNaN\<close> does not reject and which is not
  \<^verbatim>\<open><= 0\<close>. The deposit is answered 200 and the balance of the account is Infinity. The
  lemmas \<open>amount_required\<close>, \<open>amount_not_number\<close>, \<open>amount_not_positive\<close> and
  \<open>rejected_deposit_keeps_state\<close>, \<open>rejected_withdraw_keeps_state\<close> are what the validation
  does achieve.
\<close>

theorem deposit_accepts_infinity:
  "parseFloat (JStr ''Infinity'') = Some PInf
   \<and> deposit_handler userDatabase
        \<lparr>username = Some ''john_doe'', iat = None, nbf = None, exp_claim = None\<rparr>
        (JStr ''Infinity'')
      = (Deposited (Some ''john_doe'') (Some PInf) PInf,
         userDatabase\<lparr>accounts := (accounts userDatabase)(''john_doe'' \<mapsto>
           \<lparr>password = ''password123'', balance = PInf\<rparr>)\<rparr>)
   \<and> status (Deposited (Some ''john_doe'') (Some PInf) PInf) = 200"
proof -
  let ?u = "\<lparr>username = Some ''john_doe'', iat = None, nbf = None, exp_claim = None\<rparr>"
  have u: "username ?u = Some ''john_doe''" by simp
  show ?thesis
    by (simp add: parseFloat_Infinity deposit_handler_account [OF john_account u] isNaN_def)
qed

text \<open>
  C5, as stated, fails where the sum is rounded: the balance is 5000 and the amount
  \<open>10 ^ 20\<close>, a binary64 value. The credit is answered 200 with the balance \<open>10 ^ 20\<close>, the
  nearest binary64 value to the sum; the debit of the same amount is answered 200 and leaves
  the balance 0, not 5000.
\<close>

theorem credit_then_debit_loses_balance:
  "is_double 100000000000000000000
   \<and> fst (deposit_handler userDatabase
        \<lparr>username = Some ''john_doe'', iat = None, nbf = None, exp_claim = None\<rparr>
        (JNum (Fin 100000000000000000000)))
      = Deposited (Some ''john_doe'') (Some (Fin 100000000000000000000))
          (Fin 100000000000000000000)
   \<and> fst (withdraw_handler (snd (deposit_handler userDatabase
        \<lparr>username = Some ''john_doe'', iat = None, nbf = None, exp_claim = None\<rparr>
        (JNum (Fin 100000000000000000000))))
        \<lparr>username = Some ''john_doe'', iat = None, nbf = None, exp_claim = None\<rparr>
        (JNum (Fin 100000000000000000000)))
      = Withdrew (Some ''john_doe'') (Some (Fin 0)) (Fin 100000000000000000000)
   \<and> map_option balance (accounts userDatabase ''john_doe'') = Some (Fin 5000)
   \<and> map_option balance (accounts (snd (withdraw_handler (snd (deposit_handler userDatabase
        \<lparr>username = Some ''john_doe'', iat = None, nbf = None, exp_claim = None\<rparr>
        (JNum (Fin 100000000000000000000))))
        \<lparr>username = Some ''john_doe'', iat = None, nbf = None, exp_claim = None\<rparr>
        (JNum (Fin 100000000000000000000)))) ''john_doe'') = Some (Fin 0)"
proof -
  let ?u = "\<lparr>username = Some ''john_doe'', iat = None, nbf = None, exp_claim = None\<rparr>"
  let ?x = "Fin 100000000000000000000"
  have u: "username ?u = Some ''john_doe''" by simp
  have l: "js_lt (Fin 0) ?x" by simp
  let ?db1 = "userDatabase\<lparr>accounts := (accounts userDatabase)(''john_doe'' \<mapsto>
         \<lparr>password = ''password123'', balance = ?x\<rparr>)\<rparr>"
  have d: "deposit_handler userDatabase ?u (JNum ?x) =
      (Deposited (Some ''john_doe'') (Some ?x) ?x, ?db1)"
    using deposit_handler_valid [OF john_account u parseFloat_JNum l]
    by (simp add: round64_1e20_5000)
  have a1: "accounts ?db1 ''john_doe'' = Some \<lparr>password = ''password123'', balance = ?x\<rparr>"
    by simp
  have nl: "\<not> js_lt (balance \<lparr>password = ''password123'', balance = ?x\<rparr>) ?x" by simp
  have w: "withdraw_handler ?db1 ?u (JNum ?x) =
      (Withdrew (Some ''john_doe'') (Some (Fin 0)) ?x,
       userDatabase\<lparr>accounts := (accounts userDatabase)(''john_doe'' \<mapsto>
         \<lparr>password = ''password123'', balance = Fin 0\<rparr>)\<rparr>)"
    using withdraw_handler_valid [OF a1 u parseFloat_JNum l nl]
    by (simp add: js_sub_def round64_def)
  show ?thesis
    using is_double_1e20 by (simp add: d w john_account)
qed

text \<open>
  C5, amended. When the balance \<open>b\<close> is a binary64 value that is not negative, the amount
  \<open>x\<close> is positive and the sum \<open>b + x\<close> is a binary64 value too (as it is for whole numbers
  up to \<open>2 ^ 53\<close>, lemma \<open>is_double_of_nat\<close>), the credit and the debit of \<open>x\<close> are both
  answered 200 and the state after them is the state before.
\<close>

theorem credit_then_debit_round_trip:
  assumes "accounts db u = Some a" and "username user = Some u"
    and "balance a = Fin b" and "0 \<le> b" and "is_double b"
    and "parseFloat amount = Some (Fin x)" and "0 < x" and "is_double (b + x)"
  shows "status (fst (deposit_handler db user amount)) = 200
       \<and> status (fst (withdraw_handler (snd (deposit_handler db user amount)) user amount)) = 200
       \<and> snd (withdraw_handler (snd (deposit_handler db user amount)) user amount) = db"
proof -
  let ?a1 = "a\<lparr>balance := Fin (b + x)\<rparr>"
  let ?db1 = "db\<lparr>accounts := (accounts db)(u \<mapsto> ?a1)\<rparr>"
  have l: "js_lt (Fin 0) (Fin x)" using assms(7) by simp
  have d: "deposit_handler db user amount =
      (Deposited (Some u) (Some (Fin (b + x))) (Fin x), ?db1)"
    using deposit_handler_valid [OF assms(1,2,6) l] assms(3,8) by (simp add: is_double_def)
  have a1: "accounts ?db1 u = Some ?a1" by simp
  have nl: "\<not> js_lt (balance ?a1) (Fin x)" using assms(4) by simp
  have "js_sub (Fin (b + x)) (Fin x) = Fin b"
    using assms(5) by (simp add: js_sub_def is_double_def)
  then have w: "withdraw_handler ?db1 user amount =
      (Withdrew (Some u) (Some (Fin b)) (Fin x),
       ?db1\<lparr>accounts := (accounts ?db1)(u \<mapsto> ?a1\<lparr>balance := Fin b\<rparr>)\<rparr>)"
    using withdraw_handler_valid [OF a1 assms(2,6) l nl] by simp
  have "?a1\<lparr>balance := Fin b\<rparr> = a" using assms(3) by simp
  moreover have "(accounts db)(u \<mapsto> a) = accounts db"
    using assms(1) by (simp add: fun_upd_idem)
  ultimately have "?db1\<lparr>accounts := (accounts ?db1)(u \<mapsto> ?a1\<lparr>balance := Fin b\<rparr>)\<rparr> = db"
    by simp
  with d w show ?thesis by simp
qed

theorem credit_then_debit_round_trip_witness:
  "is_double 5000 \<and> is_double (5000 + 1000)
   \<and> snd (withdraw_handler (snd (deposit_handler userDatabase
        \<lparr>username = Some ''john_doe'', iat = None, nbf = None, exp_claim = None\<rparr>
        (JNum (Fin 1000))))
        \<lparr>username = Some ''john_doe'', iat = None, nbf = None, exp_claim = None\<rparr>
        (JNum (Fin 1000))) = userDatabase"
proof -
  let ?u = "\<lparr>username = Some ''john_doe'', iat = None, nbf = None, exp_claim = None\<rparr>"
  have u: "username ?u = Some ''john_doe''" by simp
  have b: "balance \<lparr>password = ''password123'', balance = Fin 5000\<rparr> = Fin 5000" by simp
  have d5: "is_double 5000" and d6: "is_double (5000 + 1000)"
    using is_double_of_nat [of 5000] is_double_of_nat [of 6000] by simp_all
  from credit_then_debit_round_trip [OF john_account u b _ d5 parseFloat_JNum _ d6] d5 d6
  show ?thesis by simp
qed

text \<open>
  C6, as stated, fails for a header that is present and empty: it does not split into
  two parts, and the answer is 401 \<^verbatim>\<open>No token provided\<close>, not \<^verbatim>\<open>Invalid token format\<close>.
\<close>

theorem gate_empty_header:
  "length (split (CHR '' '') []) \<noteq> 2
   \<and> authMiddleware (single_token ''tok'' \<lparr>payload = issued_claims 0 VALID_USERNAME 86400,
                                  signature = JWT_SECRET default_config\<rparr>)
       default_config 0 (Some []) = Inl NoTokenProvided
   \<and> authMiddleware (single_token ''tok'' \<lparr>payload = issued_claims 0 VALID_USERNAME 86400,
                                  signature = JWT_SECRET default_config\<rparr>)
       default_config 0 (Some []) \<noteq> Inl InvalidTokenFormat"
  by (simp add: authMiddleware_def)

text \<open>
  C6, amended. A missing header and an empty one are answered 401 \<^verbatim>\<open>No token provided\<close>.
  Any other header that does not split at its spaces into exactly two parts, the first of
  them \<^verbatim>\<open>Bearer\<close>, is answered 401 \<^verbatim>\<open>Invalid token format\<close>. A header that does, which is
  \<^verbatim>\<open>Bearer\<close>, one space and a token without a space, gets what the verification of that
  token gives.
\<close>

theorem gate_checks_in_order:
  "authMiddleware lib cfg now None = Inl NoTokenProvided
   \<and> authMiddleware lib cfg now (Some []) = Inl NoTokenProvided
   \<and> (h \<noteq> [] \<and> (length (split (CHR '' '') h) \<noteq> 2 \<or> hd (split (CHR '' '') h) \<noteq> ''Bearer'')
        \<longrightarrow> authMiddleware lib cfg now (Some h) = Inl InvalidTokenFormat)
   \<and> (split (CHR '' '') h = [''Bearer'', token] \<longrightarrow>
        authMiddleware lib cfg now (Some h) =
          (case jwt_verify lib now token (JWT_SECRET cfg) of
             Inr decoded \<Rightarrow> Inr decoded
           | Inl (TokenExpiredError expiredAt) \<Rightarrow> Inl (TokenExpired expiredAt)
           | Inl JsonWebTokenError \<Rightarrow> Inl InvalidToken
           | Inl NotBeforeError \<Rightarrow> Inl TokenVerificationFailed))
   \<and> (split (CHR '' '') h = [''Bearer'', token] \<longleftrightarrow>
        h = ''Bearer '' @ token \<and> CHR '' '' \<notin> set token)"
proof (intro conjI impI)
  show "authMiddleware lib cfg now None = Inl NoTokenProvided"
    and "authMiddleware lib cfg now (Some []) = Inl NoTokenProvided"
    by (simp_all add: authMiddleware_def)
next
  assume a: "h \<noteq> [] \<and> (length (split (CHR '' '') h) \<noteq> 2 \<or> hd (split (CHR '' '') h) \<noteq> ''Bearer'')"
  have "split (CHR '' '') h \<noteq> [''Bearer'', t]" for t
  proof
    assume "split (CHR '' '') h = [''Bearer'', t]"
    then have "length (split (CHR '' '') h) = 2" and "hd (split (CHR '' '') h) = ''Bearer''"
      by simp_all
    with a show False by simp
  qed
  then have n: "\<not> (\<exists>t. h = ''Bearer '' @ t \<and> CHR '' '' \<notin> set t)"
    by (simp only: split_bearer_iff [symmetric] not_ex) simp
  from a have "h \<noteq> []" ..
  then show "authMiddleware lib cfg now (Some h) = Inl InvalidTokenFormat"
    using n by (rule authMiddleware_malformed)
next
  assume s: "split (CHR '' '') h = [''Bearer'', token]"
  have "h \<noteq> []"
  proof
    assume "h = []"
    with s show False by simp
  qed
  with s show "authMiddleware lib cfg now (Some h) =
          (case jwt_verify lib now token (JWT_SECRET cfg) of
             Inr decoded \<Rightarrow> Inr decoded
           | Inl (TokenExpiredError expiredAt) \<Rightarrow> Inl (TokenExpired expiredAt)
           | Inl JsonWebTokenError \<Rightarrow> Inl InvalidToken
           | Inl NotBeforeError \<Rightarrow> Inl TokenVerificationFailed)"
    by (simp add: authMiddleware_def)
next
  show "split (CHR '' '') h = [''Bearer'', token] \<longleftrightarrow>
        h = ''Bearer '' @ token \<and> CHR '' '' \<notin> set token"
    by (rule split_bearer_iff)
qed

theorem gate_checks_in_order_witness:
  "authMiddleware (single_token ''tok'' \<lparr>payload = issued_claims 0 VALID_USERNAME 86400,
                                  signature = JWT_SECRET default_config\<rparr>)
       default_config 1000 None = Inl NoTokenProvided
   \<and> authMiddleware (single_token ''tok'' \<lparr>payload = issued_claims 0 VALID_USERNAME 86400,
                                  signature = JWT_SECRET default_config\<rparr>)
       default_config 1000 (Some ''Bearer a b'') = Inl InvalidTokenFormat
   \<and> authMiddleware (single_token ''tok'' \<lparr>payload = issued_claims 0 VALID_USERNAME 86400,
                                  signature = JWT_SECRET default_config\<rparr>)
       default_config 1000 (Some ''Bearer tok'') = Inr (issued_claims 0 VALID_USERNAME 86400)"
proof -
  let ?c = "issued_claims 0 VALID_USERNAME 86400"
  let ?lib = "single_token ''tok'' \<lparr>payload = ?c, signature = JWT_SECRET default_config\<rparr>"
  have v: "jwt_verify ?lib 1000 ''tok'' (JWT_SECRET default_config) = Inr ?c"
    by (simp add: jwt_verify_def single_token_def not_active_def expiry_date_def
        issued_claims_def)
  have m: "''Bearer a b'' \<noteq> [] \<and> (length (split (CHR '' '') ''Bearer a b'') \<noteq> 2
      \<or> hd (split (CHR '' '') ''Bearer a b'') \<noteq> ''Bearer'')"
    by simp
  have b: "split (CHR '' '') ''Bearer tok'' = [''Bearer'', ''tok'']" by simp
  from gate_checks_in_order [of ?lib default_config 1000 "''Bearer a b''" "''tok''"]
    gate_checks_in_order [of ?lib default_config 1000 "''Bearer tok''" "''tok''"] v m b
  show ?thesis by simp
qed

text \<open>
  C7, as stated, fails for a username that is present and falsy without being the empty
  string: for the number 0 the answer is 400 \<^verbatim>\<open>Username and password are required\<close>, not
  401 \<^verbatim>\<open>Invalid credentials\<close>.
\<close>

theorem login_zero_username:
  "JNum (Fin 0) \<noteq> Undefined \<and> JNum (Fin 0) \<noteq> JStr []
   \<and> login (single_token ''tok'' \<lparr>payload = issued_claims 0 VALID_USERNAME 86400,
                                  signature = JWT_SECRET default_config\<rparr>)
        default_config 0 (JNum (Fin 0)) (JStr ''password123'') = CredentialsRequired
   \<and> status CredentialsRequired = 400
   \<and> CredentialsRequired \<noteq> InvalidCredentials"
  by (simp add: login_def)

text \<open>
  C7, amended. When the username or the password of the login body is falsy, which is
  missing, \<^verbatim>\<open>null\<close>, \<^verbatim>\<open>false\<close>, 0, NaN or the empty string, the answer is 400
  \<^verbatim>\<open>Username and password are required\<close>. For any other pair of values but the valid pair
  of strings the answer is 401 \<^verbatim>\<open>Invalid credentials\<close>, a response with no further field:
  an unknown username with any password gets the very response that the known username
  with a wrong password gets.
\<close>

theorem login_rejects:
  "(falsy uname \<or> falsy pw \<longrightarrow> login lib cfg now uname pw = CredentialsRequired)
   \<and> (\<not> falsy uname \<and> \<not> falsy pw
        \<and> \<not> (uname = JStr VALID_USERNAME \<and> pw = JStr VALID_PASSWORD) \<longrightarrow>
       login lib cfg now uname pw = InvalidCredentials)
   \<and> (falsy v \<longleftrightarrow>
        v = Undefined \<or> v = Null \<or> v = JBool False \<or> v = JNum NaN \<or> v = JNum (Fin 0)
        \<or> v = JStr [])
   \<and> (\<not> falsy u1 \<and> u1 \<noteq> JStr VALID_USERNAME \<and> \<not> falsy p1
        \<and> \<not> falsy p2 \<and> p2 \<noteq> JStr VALID_PASSWORD \<longrightarrow>
       login lib cfg now u1 p1 = login lib cfg now (JStr VALID_USERNAME) p2)
   \<and> status CredentialsRequired = 400 \<and> status InvalidCredentials = 401"
proof -
  have v: "\<not> falsy (JStr VALID_USERNAME)" by (simp add: VALID_USERNAME_def)
  have f: "falsy v \<longleftrightarrow>
        v = Undefined \<or> v = Null \<or> v = JBool False \<or> v = JNum NaN \<or> v = JNum (Fin 0)
        \<or> v = JStr []"
    by (rule falsy_iff)
  have a: "falsy uname \<or> falsy pw \<longrightarrow> login lib cfg now uname pw = CredentialsRequired"
    by (simp add: login_def)
  have b: "\<not> falsy uname \<and> \<not> falsy pw
        \<and> \<not> (uname = JStr VALID_USERNAME \<and> pw = JStr VALID_PASSWORD) \<longrightarrow>
       login lib cfg now uname pw = InvalidCredentials"
    by (simp add: login_def)
  have c: "\<not> falsy u1 \<and> u1 \<noteq> JStr VALID_USERNAME \<and> \<not> falsy p1
        \<and> \<not> falsy p2 \<and> p2 \<noteq> JStr VALID_PASSWORD \<longrightarrow>
       login lib cfg now u1 p1 = login lib cfg now (JStr VALID_USERNAME) p2"
    using v by (simp add: login_def)
  from a b f c show ?thesis by simp
qed

theorem login_rejects_witness:
  "login (single_token ''tok'' \<lparr>payload = issued_claims 0 VALID_USERNAME 86400,
                                  signature = JWT_SECRET default_config\<rparr>)
     default_config 0 Undefined (JStr ''password123'') = CredentialsRequired
   \<and> login (single_token ''tok'' \<lparr>payload = issued_claims 0 VALID_USERNAME 86400,
                                  signature = JWT_SECRET default_config\<rparr>)
     default_config 0 (JStr ''john_doe'') (JStr []) = CredentialsRequired
   \<and> login (single_token ''tok'' \<lparr>payload = issued_claims 0 VALID_USERNAME 86400,
                                  signature = JWT_SECRET default_config\<rparr>)
     default_config 0 (JStr ''john_doe'') (JStr ''wrong'') = InvalidCredentials
   \<and> login (single_token ''tok'' \<lparr>payload = issued_claims 0 VALID_USERNAME 86400,
                                  signature = JWT_SECRET default_config\<rparr>)
     default_config 0 (JStr ''mallory'') (JStr ''password123'') = InvalidCredentials
   \<and> login (single_token ''tok'' \<lparr>payload = issued_claims 0 VALID_USERNAME 86400,
                                  signature = JWT_SECRET default_config\<rparr>)
     default_config 0 (JNum (Fin 7)) (JStr ''password123'') = InvalidCredentials"
proof -
  let ?lib = "single_token ''tok'' \<lparr>payload = issued_claims 0 VALID_USERNAME 86400,
                                  signature = JWT_SECRET default_config\<rparr>"
  note r = login_rejects [where lib = ?lib and cfg = default_config and now = 0
      and v = Null and ?u1.0 = "JStr ''mallory''" and ?p1.0 = "JStr ''password123''"
      and ?p2.0 = "JStr ''wrong''"]
  from r [where uname = Undefined and pw = "JStr ''password123''"]
    r [where uname = "JStr ''john_doe''" and pw = "JStr []"]
    r [where uname = "JStr ''john_doe''" and pw = "JStr ''wrong''"]
    r [where uname = "JStr ''mallory''" and pw = "JStr ''password123''"]
    r [where uname = "JNum (Fin 7)" and pw = "JStr ''password123''"]
  show ?thesis
    by (simp add: VALID_USERNAME_def VALID_PASSWORD_def)
qed

text \<open>
  C8, as stated, fails where the sum is rounded: the deposit of \<open>10 ^ 20\<close>, a binary64
  value, on the balance 5000 is answered 200 with the balance \<open>10 ^ 20\<close>, which is stored;
  that is not 5000 plus the amount.
\<close>

theorem deposit_rounds_the_sum:
  "is_double 100000000000000000000
   \<and> parseFloat (JNum (Fin 100000000000000000000)) = Some (Fin 100000000000000000000)
   \<and> map_option balance (accounts userDatabase ''john_doe'') = Some (Fin 5000)
   \<and> deposit_handler userDatabase
        \<lparr>username = Some ''john_doe'', iat = None, nbf = None, exp_claim = None\<rparr>
        (JNum (Fin 100000000000000000000))
      = (Deposited (Some ''john_doe'') (Some (Fin 100000000000000000000))
           (Fin 100000000000000000000),
         userDatabase\<lparr>accounts := (accounts userDatabase)(''john_doe'' \<mapsto>
           \<lparr>password = ''password123'', balance = Fin 100000000000000000000\<rparr>)\<rparr>)
   \<and> Fin 100000000000000000000 \<noteq> Fin (5000 + 100000000000000000000)"
proof -
  let ?u = "\<lparr>username = Some ''john_doe'', iat = None, nbf = None, exp_claim = None\<rparr>"
  let ?x = "Fin 100000000000000000000"
  have u: "username ?u = Some ''john_doe''" by simp
  have l: "js_lt (Fin 0) ?x" by simp
  have d: "deposit_handler userDatabase ?u (JNum ?x) =
      (Deposited (Some ''john_doe'') (Some ?x) ?x,
       userDatabase\<lparr>accounts := (accounts userDatabase)(''john_doe'' \<mapsto>
         \<lparr>password = ''password123'', balance = ?x\<rparr>)\<rparr>)"
    using deposit_handler_valid [OF john_account u parseFloat_JNum l]
    by (simp add: round64_1e20_5000)
  show ?thesis
    using is_double_1e20 by (simp add: d john_account parseFloat_JNum)
qed

text \<open>
  C8, amended. A deposit on an account with an amount that \<^verbatim>\<open>parseFloat\<close> reads as a
  positive Number \<open>n\<close> is answered 200 with the new balance, which is the Number sum of the
  old balance and \<open>n\<close>, the exact sum rounded to binary64, and is stored in the account;
  it is the old balance plus the amount whenever that sum is a binary64 value (as for whole
  numbers up to \<open>2 ^ 53\<close>, lemma \<open>is_double_of_nat\<close>). From the initial state, the deposit of
  1000 by \<^verbatim>\<open>john_doe\<close> answers the balance 6000 and the withdrawal of 500 after it the
  balance 5500.
\<close>

theorem deposit_adds_amount:
  assumes "accounts db u = Some a" and "username user = Some u"
    and "parseFloat amount = Some n" and "js_lt (Fin 0) n"
  shows "deposit_handler db user amount =
           (Deposited (Some u) (Some (js_add (balance a) n)) n,
            db\<lparr>accounts := (accounts db)(u \<mapsto> a\<lparr>balance := js_add (balance a) n\<rparr>)\<rparr>)
       \<and> status (fst (deposit_handler db user amount)) = 200
       \<and> (\<forall>b x. balance a = Fin b \<and> n = Fin x \<and> is_double (b + x) \<longrightarrow>
             js_add (balance a) n = Fin (b + x))
       \<and> (u = ''john_doe'' \<longrightarrow>
             fst (deposit_handler userDatabase user (JNum (Fin 1000)))
               = Deposited (Some ''john_doe'') (Some (Fin 6000)) (Fin 1000)
           \<and> fst (withdraw_handler (snd (deposit_handler userDatabase user (JNum (Fin 1000))))
                    user (JNum (Fin 500)))
               = Withdrew (Some ''john_doe'') (Some (Fin 5500)) (Fin 500))"
proof (intro conjI impI)
  show d: "deposit_handler db user amount =
           (Deposited (Some u) (Some (js_add (balance a) n)) n,
            db\<lparr>accounts := (accounts db)(u \<mapsto> a\<lparr>balance := js_add (balance a) n\<rparr>)\<rparr>)"
    using assms by (rule deposit_handler_valid)
  show "status (fst (deposit_handler db user amount)) = 200" by (simp add: d)
  show "\<forall>b x. balance a = Fin b \<and> n = Fin x \<and> is_double (b + x) \<longrightarrow>
      js_add (balance a) n = Fin (b + x)"
    by (simp add: is_double_def)
next
  assume "u = ''john_doe''"
  with assms(2) have user: "username user = Some ''john_doe''" by simp
  have "is_double 6000" and "is_double 5500"
    using is_double_of_nat [of 6000] is_double_of_nat [of 5500] by simp_all
  then have six: "js_add (Fin 5000) (Fin 1000) = Fin 6000"
    and five: "js_sub (Fin 6000) (Fin 500) = Fin 5500"
    using js_add_exact [of 5000 1000] js_sub_exact [of 6000 500] by simp_all
  have d: "deposit_handler userDatabase user (JNum (Fin 1000)) =
      (Deposited (Some ''john_doe'') (Some (Fin 6000)) (Fin 1000),
       userDatabase\<lparr>accounts := (accounts userDatabase)(''john_doe'' \<mapsto>
         \<lparr>password = ''password123'', balance = Fin 6000\<rparr>)\<rparr>)"
    using deposit_handler_valid [OF john_account user parseFloat_JNum, of "Fin 1000"] six
    by simp
  show "fst (deposit_handler userDatabase user (JNum (Fin 1000)))
      = Deposited (Some ''john_doe'') (Some (Fin 6000)) (Fin 1000)"
    by (simp add: d)
  have w: "withdraw_handler (snd (deposit_handler userDatabase user (JNum (Fin 1000))))
      user (JNum (Fin 500))
    = (Withdrew (Some ''john_doe'') (Some (js_sub (Fin 6000) (Fin 500))) (Fin 500),
       (snd (deposit_handler userDatabase user (JNum (Fin 1000))))
         \<lparr>accounts := (accounts (snd (deposit_handler userDatabase user (JNum (Fin 1000)))))
            (''john_doe'' \<mapsto> \<lparr>password = ''password123'', balance = js_sub (Fin 6000) (Fin 500)\<rparr>)\<rparr>)"
    using withdraw_handler_valid [of "snd (deposit_handler userDatabase user (JNum (Fin 1000)))"
        "''john_doe''" "\<lparr>password = ''password123'', balance = Fin 6000\<rparr>" user
        "JNum (Fin 500)" "Fin 500"] user
    by (simp add: d parseFloat_JNum)
  show "fst (withdraw_handler (snd (deposit_handler userDatabase user (JNum (Fin 1000))))
                    user (JNum (Fin 500)))
      = Withdrew (Some ''john_doe'') (Some (Fin 5500)) (Fin 500)"
    by (simp add: w five)
qed

theorem deposit_adds_amount_witness:
  "parseFloat (JStr ''250'') = Some (Fin 250)
   \<and> js_lt (Fin 0) (Fin 250)
   \<and> fst (deposit_handler userDatabase
        \<lparr>username = Some ''john_doe'', iat = None, nbf = None, exp_claim = None\<rparr>
        (JStr ''250''))
      = Deposited (Some ''john_doe'') (Some (Fin 5250)) (Fin 250)
   \<and> fst (withdraw_handler (snd (deposit_handler userDatabase
        \<lparr>username = Some ''john_doe'', iat = None, nbf = None, exp_claim = None\<rparr>
        (JNum (Fin 1000))))
        \<lparr>username = Some ''john_doe'', iat = None, nbf = None, exp_claim = None\<rparr>
        (JNum (Fin 500)))
      = Withdrew (Some ''john_doe'') (Some (Fin 5500)) (Fin 500)"
proof -
  let ?u = "\<lparr>username = Some ''john_doe'', iat = None, nbf = None, exp_claim = None\<rparr>"
  have u: "username ?u = Some ''john_doe''" by simp
  have l: "js_lt (Fin 0) (Fin 250)" by simp
  have "is_double 5250" using is_double_of_nat [of 5250] by simp
  then have s: "js_add (Fin 5000) (Fin 250) = Fin 5250"
    using js_add_exact [of 5000 250] by simp
  from deposit_adds_amount [OF john_account u parseFloat_250 l] parseFloat_250 l s
  show ?thesis by simp
qed

text \<open>
  C9, as stated, fails for a token that is not active yet: its signature verifies, its
  expiry (200 s) has not passed at 50 s and it has no username, but its \<^verbatim>\<open>nbf\<close> is 100 s,
  and the answer is 401 \<^verbatim>\<open>Token verification failed\<close>.
\<close>

theorem identityless_token_before_nbf:
  "signature \<lparr>payload = \<lparr>username = None, iat = None, nbf = Some 100, exp_claim = Some 200\<rparr>,
               signature = JWT_SECRET default_config\<rparr>
     = hmac (single_token ''tok''
               \<lparr>payload = \<lparr>username = None, iat = None, nbf = Some 100, exp_claim = Some 200\<rparr>,
                signature = JWT_SECRET default_config\<rparr>)
         (JWT_SECRET default_config)
         \<lparr>username = None, iat = None, nbf = Some 100, exp_claim = Some 200\<rparr>
   \<and> 50000 div 1000 < (200::nat)
   \<and> get_balance_route
        (single_token ''tok''
           \<lparr>payload = \<lparr>username = None, iat = None, nbf = Some 100, exp_claim = Some 200\<rparr>,
            signature = JWT_SECRET default_config\<rparr>)
        default_config 50000 userDatabase (Some ''Bearer tok'')
      = (TokenVerificationFailed, userDatabase)
   \<and> status TokenVerificationFailed = 401"
  by (simp add: get_balance_route_def authMiddleware_def jwt_verify_def single_token_def
      not_active_def)

text \<open>
  C9, amended. A token without a username whose signature verifies, whose expiry, if it
  has one, has not passed, and whose \<^verbatim>\<open>nbf\<close>, if it has one, has been reached, passes the
  middleware; the three protected routes then answer 404 \<^verbatim>\<open>User not found\<close> and leave the
  state as it was, in every state whose only account is \<^verbatim>\<open>john_doe\<close> (the handlers never
  add an account: lemmas \<open>deposit_keeps_account_names\<close>, \<open>withdraw_keeps_account_names\<close>).
\<close>

theorem identityless_token_not_found:
  assumes "decode lib tok = Some (sign_claims lib (JWT_SECRET cfg) c)"
    and "CHR '' '' \<notin> set tok"
    and "username c = None"
    and "\<forall>e. exp_claim c = Some e \<longrightarrow> now div 1000 < e"
    and "\<forall>n. nbf c = Some n \<longrightarrow> n \<le> now div 1000"
    and "dom (accounts db) = {''john_doe''}"
  shows "authMiddleware lib cfg now (Some (''Bearer '' @ tok)) = Inr c
       \<and> get_balance_route lib cfg now db (Some (''Bearer '' @ tok)) = (UserNotFound, db)
       \<and> post_deposit_route lib cfg now db (Some (''Bearer '' @ tok)) amount = (UserNotFound, db)
       \<and> post_withdraw_route lib cfg now db (Some (''Bearer '' @ tok)) amount = (UserNotFound, db)
       \<and> status UserNotFound = 404"
proof -
  have na: "\<not> not_active c (now div 1000)"
    using assms(5) by (auto simp add: not_active_def split: option.split)
  have ne: "expiry_date c (now div 1000) = None"
    using assms(4) by (auto simp add: expiry_date_def split: option.split)
  have g: "authMiddleware lib cfg now (Some (''Bearer '' @ tok)) = Inr c"
    using authMiddleware_bearer [OF assms(2), of lib cfg now]
    by (simp add: jwt_verify_signed [OF assms(1)] na ne)
  have "''undefined'' \<notin> dom (accounts db)" by (simp add: assms(6))
  then have "accounts db ''undefined'' = None" by (simp add: domIff)
  then have l: "lookup_user db (property_key (username c)) = None"
    using assms(3) by (simp add: lookup_user_def property_key_def object_prototype_keys_def)
  show ?thesis
    using g l
    by (simp add: get_balance_route_def post_deposit_route_def post_withdraw_route_def
        balance_handler_def deposit_handler_def withdraw_handler_def)
qed

theorem identityless_token_not_found_witness:
  "get_balance_route
        (single_token ''tok''
           \<lparr>payload = \<lparr>username = None, iat = None, nbf = None, exp_claim = Some 200\<rparr>,
            signature = JWT_SECRET default_config\<rparr>)
        default_config 50000 userDatabase (Some ''Bearer tok'')
      = (UserNotFound, userDatabase)
   \<and> post_deposit_route
        (single_token ''tok''
           \<lparr>payload = \<lparr>username = None, iat = None, nbf = None, exp_claim = Some 200\<rparr>,
            signature = JWT_SECRET default_config\<rparr>)
        default_config 50000 userDatabase (Some ''Bearer tok'') (JNum (Fin 1000))
      = (UserNotFound, userDatabase)"
proof -
  let ?c = "\<lparr>username = None, iat = None, nbf = None, exp_claim = Some 200\<rparr>"
  let ?lib = "single_token ''tok'' \<lparr>payload = ?c, signature = JWT_SECRET default_config\<rparr>"
  have d: "decode ?lib ''tok'' = Some (sign_claims ?lib (JWT_SECRET default_config) ?c)"
    by (simp add: single_token_def sign_claims_def)
  have s: "CHR '' '' \<notin> set ''tok''" by simp
  have u: "username ?c = None" by simp
  have e: "\<forall>e. exp_claim ?c = Some e \<longrightarrow> 50000 div 1000 < e" by simp
  have n: "\<forall>n. nbf ?c = Some n \<longrightarrow> n \<le> 50000 div 1000" by simp
  from identityless_token_not_found [OF d s u e n userDatabase_account_names, of "JNum (Fin 1000)"]
  show ?thesis by simp
qed

text \<open>
  C10. \<^verbatim>\<open>constructor\<close> names no account, yet \<^verbatim>\<open>userDatabase['constructor']\<close> is the function
  that the object inherits, and it is truthy: the handlers go on to the amount and answer
  400 where a missing account is answered 404. Lemma \<open>no_user_not_found\<close> is the order of
  the two checks for a username whose lookup finds nothing.
\<close>

theorem inherited_name_passes_account_check:
  "accounts userDatabase ''constructor'' = None
   \<and> deposit_handler userDatabase
        \<lparr>username = Some ''constructor'', iat = None, nbf = None, exp_claim = None\<rparr>
        Undefined
      = (AmountRequired, userDatabase)
   \<and> withdraw_handler userDatabase
        \<lparr>username = Some ''constructor'', iat = None, nbf = None, exp_claim = None\<rparr>
        (JStr ''abc'')
      = (AmountNotNumber, userDatabase)
   \<and> status AmountRequired = 400 \<and> status AmountNotNumber = 400"
  by (simp add: userDatabase_def deposit_handler_def withdraw_handler_def property_key_def
      lookup_user_def object_prototype_keys_def parseFloat_abc isNaN_def)

end
